theory Spec2Isabelle
  imports Complex_Main
begin

section \<open>JavaScript values as the handlers see them\<close>

text \<open>
  A JavaScript string is a sequence of UTF-16 code units; a code unit is modelled as a
  natural number below 65536.  The bytes of a \<^verbatim>\<open>Buffer\<close> are HOL characters
  (a \<^typ>\<open>char\<close> is one byte).  \<open>js\<close> writes an ASCII literal of the source as
  code units.
\<close>

type_synonym jsstring = "nat list"

definition js :: "string \<Rightarrow> jsstring" where
  "js s = map of_char s"

text \<open>
  The values that \<^verbatim>\<open>JSON.parse\<close>, the body parsers and property reads produce.
  A number is its exact value, a rational, or an infinity: \<open>JInf False\<close> is
  \<^verbatim>\<open>Infinity\<close> and \<open>JInf True\<close> is \<^verbatim>\<open>-Infinity\<close>.  \<^verbatim>\<open>NaN\<close> does not occur (JSON
  has no literal for it and no handler computes with the numbers it is given), and
  \<^verbatim>\<open>-0\<close> is not told apart from \<^verbatim>\<open>0\<close> (both are falsy and both are written
  \<^verbatim>\<open>0\<close>).  An object is the list of its properties in source order; a later binding
  of a key wins, as in JavaScript.
\<close>

datatype jsval =
    JUndefined
  | JNull
  | JBool bool
  | JNum rat
  | JInf bool
  | JStr jsstring
  | JArr "jsval list"
  | JObj "(jsstring \<times> jsval) list"

datatype js_error = TypeError | SyntaxError

text \<open>Truthiness, as \<^verbatim>\<open>if (x)\<close>, \<^verbatim>\<open>!x\<close>, \<^verbatim>\<open>x || y\<close> and \<^verbatim>\<open>x && y\<close> test it.\<close>

fun truthy :: "jsval \<Rightarrow> bool" where
  "truthy JUndefined = False"
| "truthy JNull = False"
| "truthy (JBool b) = b"
| "truthy (JNum q) = (q \<noteq> 0)"
| "truthy (JInf neg) = True"
| "truthy (JStr s) = (s \<noteq> [])"
| "truthy (JArr xs) = True"
| "truthy (JObj kvs) = True"

definition js_or :: "jsval \<Rightarrow> jsval \<Rightarrow> jsval" where
  "js_or a b = (if truthy a then a else b)"

definition js_and :: "jsval \<Rightarrow> jsval \<Rightarrow> jsval" where
  "js_and a b = (if truthy a then b else a)"

definition lookup :: "(jsstring \<times> jsval) list \<Rightarrow> jsstring \<Rightarrow> jsval" where
  "lookup kvs k = (case map_of (rev kvs) k of Some v \<Rightarrow> v | None \<Rightarrow> JUndefined)"

text \<open>
  \<^verbatim>\<open>v.k\<close> for the property names the handlers read (\<^verbatim>\<open>model\<close>, \<^verbatim>\<open>input\<close>,
  \<^verbatim>\<open>choices\<close>, \<^verbatim>\<open>delta\<close>, ...; none of them is a built-in property of a string,
  an array, a number or a boolean): reading a property of \<^verbatim>\<open>null\<close> or
  \<^verbatim>\<open>undefined\<close> throws a TypeError.
\<close>

fun get :: "jsval \<Rightarrow> jsstring \<Rightarrow> js_error + jsval" where
  "get JUndefined k = Inl TypeError"
| "get JNull k = Inl TypeError"
| "get (JObj kvs) k = Inr (lookup kvs k)"
| "get v k = Inr JUndefined"

text \<open>\<^verbatim>\<open>v?.k\<close>: the optional chain never throws.\<close>

fun opt_get :: "jsval \<Rightarrow> jsstring \<Rightarrow> jsval" where
  "opt_get (JObj kvs) k = lookup kvs k"
| "opt_get v k = JUndefined"

text \<open>\<^verbatim>\<open>v[0]\<close> and \<^verbatim>\<open>v?.[0]\<close>.\<close>

fun elem0 :: "jsval \<Rightarrow> jsval" where
  "elem0 (JArr (x # xs)) = x"
| "elem0 (JObj kvs) = lookup kvs (js ''0'')"
| "elem0 (JStr (c # cs)) = JStr [c]"
| "elem0 v = JUndefined"

fun index0 :: "jsval \<Rightarrow> js_error + jsval" where
  "index0 JUndefined = Inl TypeError"
| "index0 JNull = Inl TypeError"
| "index0 v = Inr (elem0 v)"

definition opt_index0 :: "jsval \<Rightarrow> jsval" where
  "opt_index0 v = elem0 v"

text \<open>Sequencing of computations that may throw.\<close>

fun bind :: "js_error + 'a \<Rightarrow> ('a \<Rightarrow> js_error + 'b) \<Rightarrow> js_error + 'b" where
  "bind (Inl e) f = Inl e"
| "bind (Inr x) f = f x"

text \<open>
  The conversion to a string that a template literal \<^verbatim>\<open>`${v}`\<close> and \<^verbatim>\<open>String(v)\<close>
  apply: \<open>convertible v\<close> says that it returns, otherwise it throws a TypeError.  The
  values are plain data.  An object is converted by \<^verbatim>\<open>Object.prototype.toString\<close>,
  unless it has an own property \<^verbatim>\<open>toString\<close>: that property holds no function, so
  the conversion goes on to \<^verbatim>\<open>valueOf\<close>, which yields no primitive value either,
  and throws.  An array is converted by joining the conversions of its elements
  (\<^verbatim>\<open>null\<close> and \<^verbatim>\<open>undefined\<close> as the empty string).
\<close>

fun convertible :: "jsval \<Rightarrow> bool" and convertible_elements :: "jsval list \<Rightarrow> bool" where
  "convertible (JArr xs) = convertible_elements xs"
| "convertible (JObj kvs) = (js ''toString'' \<notin> fst ` set kvs)"
| "convertible v = True"
| "convertible_elements [] = True"
| "convertible_elements (x # xs) = (convertible x \<and> convertible_elements xs)"

section \<open>String operations of the handlers\<close>

text \<open>
  \<^verbatim>\<open>buffer.indexOf('\n')\<close> (\<open>None\<close> for \<open>-1\<close>), \<^verbatim>\<open>s.trim()\<close>, which strips the
  WhiteSpace and LineTerminator code units of ECMAScript at both ends, and
  \<^verbatim>\<open>message.replace(/^data: /, '')\<close>.  \<^verbatim>\<open>buffer.slice(0, i)\<close> and
  \<^verbatim>\<open>buffer.slice(i + 1)\<close> are \<open>take i\<close> and \<open>drop (Suc i)\<close>.
\<close>

fun indexOf :: "nat \<Rightarrow> jsstring \<Rightarrow> nat option" where
  "indexOf c [] = None"
| "indexOf c (x # xs) = (if x = c then Some 0 else map_option Suc (indexOf c xs))"

definition is_ws :: "nat \<Rightarrow> bool" where
  "is_ws c = (c \<in> {9, 10, 11, 12, 13, 32, 160, 5760, 8232, 8233, 8239, 8287, 12288, 65279}
               \<or> (8192 \<le> c \<and> c \<le> 8202))"

definition trim :: "jsstring \<Rightarrow> jsstring" where
  "trim s = rev (dropWhile is_ws (rev (dropWhile is_ws s)))"

definition strip_data_prefix :: "jsstring \<Rightarrow> jsstring" where
  "strip_data_prefix s = (if take 6 s = js ''data: '' then drop 6 s else s)"

section \<open>Buffer.toString\<close>

text \<open>
  \<^verbatim>\<open>chunk.toString()\<close> decodes the bytes of one chunk as UTF-8, on its own: a byte
  sequence that is not a complete well-formed character, also one cut off by the end
  of the chunk, becomes U+FFFD (65533), one per maximal ill-formed part.
  \<open>utf8_step b bs\<close> decodes the character that starts at byte \<open>b\<close>: the code units
  it yields and how many bytes of \<open>bs\<close> it used.
\<close>

definition cont :: "nat \<Rightarrow> bool" where
  "cont b = (128 \<le> b \<and> b < 192)"

definition utf8_step :: "nat \<Rightarrow> nat list \<Rightarrow> jsstring \<times> nat" where
  "utf8_step b bs =
    (if b < 128 then ([b], 0)
     else if 194 \<le> b \<and> b < 224 then
       (case bs of
          c # _ \<Rightarrow> if cont c then ([(b - 192) * 64 + (c - 128)], 1) else ([65533], 0)
        | _ \<Rightarrow> ([65533], 0))
     else if 224 \<le> b \<and> b < 240 then
       (case bs of
          c # d # _ \<Rightarrow>
            if (if b = 224 then 160 else 128) \<le> c \<and> c \<le> (if b = 237 then 159 else 191) then
              (if cont d then ([(b - 224) * 4096 + (c - 128) * 64 + (d - 128)], 2)
               else ([65533], 1))
            else ([65533], 0)
        | [c] \<Rightarrow>
            if (if b = 224 then 160 else 128) \<le> c \<and> c \<le> (if b = 237 then 159 else 191)
            then ([65533], 1) else ([65533], 0)
        | _ \<Rightarrow> ([65533], 0))
     else if 240 \<le> b \<and> b < 245 then
       (let n = length (takeWhile cont (take 3 bs));
            ok1 = (bs \<noteq> [] \<and> (if b = 240 then 144 else 128) \<le> hd bs
                     \<and> hd bs \<le> (if b = 244 then 143 else 191))
        in if \<not> ok1 then ([65533], 0)
           else if n < 3 then ([65533], n)
           else (let cp = (b - 240) * 262144 + (bs ! 0 - 128) * 4096 + (bs ! 1 - 128) * 64
                            + (bs ! 2 - 128)
                 in ([55296 + (cp - 65536) div 1024, 56320 + (cp - 65536) mod 1024], 3)))
     else ([65533], 0))"

fun utf8_decode :: "nat list \<Rightarrow> jsstring" where
  "utf8_decode [] = []"
| "utf8_decode (b # bs) = fst (utf8_step b bs) @ utf8_decode (drop (snd (utf8_step b bs)) bs)"

definition toString :: "string \<Rightarrow> jsstring" where
  "toString chunk = utf8_decode (map of_char chunk)"

section \<open>JSON.parse\<close>

text \<open>
  The grammar of ECMA-404 as \<^verbatim>\<open>JSON.parse\<close> reads it: a lexer (strings with their
  escapes, numbers, the three literals, the six structural characters, the four
  white-space characters) and a pushdown recogniser over the tokens that builds the
  value.  A text that is not one JSON value is a SyntaxError.

  A number literal denotes the binary64 value nearest to it, ties to the even
  significand, and an infinity beyond the range of binary64.  \<open>binary64 neg p q\<close> is
  that value for the literal whose magnitude is \<open>p / q\<close>: \<open>bits\<close> counts the binary
  digits of a natural number, \<open>e\<close> is the binary exponent of the magnitude, \<open>2 ^ s\<close>
  the distance between neighbouring binary64 values there (from \<open>2 ^ - 1074\<close> on, the
  distance between subnormal values), and \<open>n\<close> the magnitude in units of it, rounded.
\<close>

definition is_digit :: "nat \<Rightarrow> bool" where
  "is_digit c = (48 \<le> c \<and> c \<le> 57)"

definition hexval :: "nat \<Rightarrow> nat option" where
  "hexval c =
    (if 48 \<le> c \<and> c \<le> 57 then Some (c - 48)
     else if 97 \<le> c \<and> c \<le> 102 then Some (c - 87)
     else if 65 \<le> c \<and> c \<le> 70 then Some (c - 55)
     else None)"

definition unescape :: "nat \<Rightarrow> nat option" where
  "unescape e =
    (if e = 34 \<or> e = 92 \<or> e = 47 then Some e
     else if e = 98 then Some 8
     else if e = 102 then Some 12
     else if e = 110 then Some 10
     else if e = 114 then Some 13
     else if e = 116 then Some 9
     else None)"

definition hex4 :: "jsstring \<Rightarrow> nat option" where
  "hex4 hs =
    (case map hexval hs of
       [Some a, Some b, Some c, Some d] \<Rightarrow> Some (a * 4096 + b * 256 + c * 16 + d)
     | _ \<Rightarrow> None)"

fun lex_string :: "jsstring \<Rightarrow> jsstring \<Rightarrow> (jsstring \<times> jsstring) option" where
  "lex_string acc [] = None"
| "lex_string acc (c # cs) =
    (if c = 34 then Some (rev acc, cs)
     else if c < 32 then None
     else if c = 92 then
       (case cs of
          [] \<Rightarrow> None
        | e # cs1 \<Rightarrow>
            if e = 117 then
              (case hex4 (take 4 cs1) of
                 None \<Rightarrow> None
               | Some u \<Rightarrow> lex_string (u # acc) (drop 4 cs1))
            else
              (case unescape e of
                 None \<Rightarrow> None
               | Some u \<Rightarrow> lex_string (u # acc) cs1))
     else lex_string (c # acc) cs)"

definition digits_val :: "jsstring \<Rightarrow> nat" where
  "digits_val ds = foldl (\<lambda>a d. 10 * a + (d - 48)) 0 ds"

function bits :: "nat \<Rightarrow> nat" where
  "bits n = (if n = 0 then 0 else Suc (bits (n div 2)))"
  by pat_completeness auto
termination
  by (relation "measure id") auto

definition round_half_even :: "nat \<Rightarrow> nat \<Rightarrow> nat" where
  "round_half_even num den =
    (let f = num div den; r = num mod den
     in if 2 * r < den then f
        else if den < 2 * r then f + 1
        else if even f then f else f + 1)"

definition binary64 :: "bool \<Rightarrow> nat \<Rightarrow> nat \<Rightarrow> jsval" where
  "binary64 neg p q =
    (if p = 0 then JNum 0
     else
       let d = int (bits p) - int (bits q);
           e = (if (if 0 \<le> d then q * 2 ^ nat d \<le> p else q \<le> p * 2 ^ nat (- d)) then d else d - 1);
           s = max e (- 1022) - 52;
           n = (if 0 \<le> s then round_half_even p (q * 2 ^ nat s)
                else round_half_even (p * 2 ^ nat (- s)) q)
       in if 0 \<le> s \<and> 2 ^ 1024 \<le> n * 2 ^ nat s then JInf neg
          else JNum ((if neg then - 1 else 1)
                     * (if 0 \<le> s then of_nat (n * 2 ^ nat s) else of_nat n / 2 ^ nat (- s))))"

definition parse_number :: "jsstring \<Rightarrow> jsval option" where
  "parse_number s =
    (let neg = (s \<noteq> [] \<and> hd s = 45);
         s1 = (if neg then tl s else s);
         ip = takeWhile is_digit s1;
         s2 = dropWhile is_digit s1;
         has_frac = (s2 \<noteq> [] \<and> hd s2 = 46);
         fp = (if has_frac then takeWhile is_digit (tl s2) else []);
         s3 = (if has_frac then dropWhile is_digit (tl s2) else s2);
         has_exp = (s3 \<noteq> [] \<and> (hd s3 = 101 \<or> hd s3 = 69));
         s4 = (if has_exp then tl s3 else s3);
         eneg = (has_exp \<and> s4 \<noteq> [] \<and> hd s4 = 45);
         epos = (has_exp \<and> s4 \<noteq> [] \<and> hd s4 = 43);
         s5 = (if eneg \<or> epos then tl s4 else s4);
         ep = (if has_exp then takeWhile is_digit s5 else []);
         s6 = (if has_exp then dropWhile is_digit s5 else s5)
     in if ip = [] \<or> (1 < length ip \<and> hd ip = 48) \<or> (has_frac \<and> fp = [])
           \<or> (has_exp \<and> ep = []) \<or> s6 \<noteq> []
        then None
        else Some (binary64 neg
                     (digits_val (ip @ fp) * (if eneg then 1 else 10 ^ digits_val ep))
                     (10 ^ length fp * (if eneg then 10 ^ digits_val ep else 1))))"

datatype token =
    LBrace | RBrace | LBrack | RBrack | Colon | Comma
  | TString jsstring
  | TScalar jsval

definition is_numch :: "nat \<Rightarrow> bool" where
  "is_numch c = (is_digit c \<or> c = 45 \<or> c = 43 \<or> c = 46 \<or> c = 101 \<or> c = 69)"

lemma lex_string_shorter:
  "lex_string acc cs = Some (s, rest) \<Longrightarrow> length rest < length cs"
proof (induction acc cs rule: lex_string.induct)
  case (1 acc)
  then show ?case by simp
next
  case (2 acc c cs)
  show ?case
  proof (cases "c = 34")
    case True
    with "2.prems" show ?thesis by simp
  next
    case notq: False
    show ?thesis
    proof (cases "c < 32")
      case True
      with "2.prems" notq show ?thesis by simp
    next
      case notctl: False
      show ?thesis
      proof (cases "c = 92")
        case False
        with "2.prems" "2.IH"(3) notq notctl show ?thesis by fastforce
      next
        case bs: True
        show ?thesis
        proof (cases cs)
          case Nil
          with "2.prems" notq notctl bs show ?thesis by simp
        next
          case (Cons e cs1)
          show ?thesis
          proof (cases "e = 117")
            case True
            with "2.prems" notq notctl bs Cons obtain u where
              u: "hex4 (take 4 cs1) = Some u" and
              r: "lex_string (u # acc) (drop 4 cs1) = Some (s, rest)"
              by (auto split: option.splits)
            from "2.IH"(1)[OF notq notctl bs Cons True u r]
            have "length rest < length (drop 4 cs1)" .
            with Cons show ?thesis by simp
          next
            case False
            with "2.prems" notq notctl bs Cons obtain u where
              u: "unescape e = Some u" and
              r: "lex_string (u # acc) cs1 = Some (s, rest)"
              by (auto split: option.splits)
            from "2.IH"(2)[OF notq notctl bs Cons False u r]
            have "length rest < length cs1" .
            with Cons show ?thesis by simp
          qed
        qed
      qed
    qed
  qed
qed

function tokenize :: "jsstring \<Rightarrow> token list option" where
  "tokenize [] = Some []"
| "tokenize (c # cs) =
    (if c = 32 \<or> c = 9 \<or> c = 10 \<or> c = 13 then tokenize cs
     else if c = 123 then map_option ((#) LBrace) (tokenize cs)
     else if c = 125 then map_option ((#) RBrace) (tokenize cs)
     else if c = 91 then map_option ((#) LBrack) (tokenize cs)
     else if c = 93 then map_option ((#) RBrack) (tokenize cs)
     else if c = 58 then map_option ((#) Colon) (tokenize cs)
     else if c = 44 then map_option ((#) Comma) (tokenize cs)
     else if c = 34 then
       (case lex_string [] cs of
          None \<Rightarrow> None
        | Some (s, rest) \<Rightarrow> map_option ((#) (TString s)) (tokenize rest))
     else if c = 45 \<or> is_digit c then
       (case parse_number (c # takeWhile is_numch cs) of
          None \<Rightarrow> None
        | Some v \<Rightarrow> map_option ((#) (TScalar v)) (tokenize (dropWhile is_numch cs)))
     else if take 4 (c # cs) = js ''true'' then
       map_option ((#) (TScalar (JBool True))) (tokenize (drop 3 cs))
     else if take 5 (c # cs) = js ''false'' then
       map_option ((#) (TScalar (JBool False))) (tokenize (drop 4 cs))
     else if take 4 (c # cs) = js ''null'' then
       map_option ((#) (TScalar JNull)) (tokenize (drop 3 cs))
     else None)"
  by pat_completeness auto
termination
proof (relation "measure length")
  show "wf (measure length)" by simp
next
  fix c cs x2 x y
  assume "lex_string [] cs = Some x2" "(x, y) = x2"
  then show "(y, c # cs) \<in> measure length"
    using lex_string_shorter [of "[]" cs x y] by simp
qed (auto intro: le_imp_less_Suc length_dropWhile_le)

datatype frame =
    FArr "jsval list"
  | FObj "(jsstring \<times> jsval) list"
  | FKey "(jsstring \<times> jsval) list" jsstring

datatype mode =
    WantValue
  | WantValueOrClose
  | WantKeyOrClose
  | WantKey
  | WantColon
  | WantCommaOrClose
  | Finished jsval

fun after_value :: "jsval \<Rightarrow> frame list \<Rightarrow> (mode \<times> frame list) option" where
  "after_value v [] = Some (Finished v, [])"
| "after_value v (FArr xs # st) = Some (WantCommaOrClose, FArr (v # xs) # st)"
| "after_value v (FKey ms k # st) = Some (WantCommaOrClose, FObj ((k, v) # ms) # st)"
| "after_value v (FObj ms # st) = None"

fun value_start :: "token \<Rightarrow> frame list \<Rightarrow> (mode \<times> frame list) option" where
  "value_start (TScalar v) st = after_value v st"
| "value_start (TString s) st = after_value (JStr s) st"
| "value_start LBrack st = Some (WantValueOrClose, FArr [] # st)"
| "value_start LBrace st = Some (WantKeyOrClose, FObj [] # st)"
| "value_start t st = None"

fun step :: "mode \<Rightarrow> frame list \<Rightarrow> token \<Rightarrow> (mode \<times> frame list) option" where
  "step WantValue st t = value_start t st"
| "step WantValueOrClose (FArr xs # st) RBrack = after_value (JArr (rev xs)) st"
| "step WantValueOrClose st t = value_start t st"
| "step WantKeyOrClose (FObj ms # st) RBrace = after_value (JObj (rev ms)) st"
| "step WantKeyOrClose (FObj ms # st) (TString k) = Some (WantColon, FKey ms k # st)"
| "step WantKey (FObj ms # st) (TString k) = Some (WantColon, FKey ms k # st)"
| "step WantColon st Colon = Some (WantValue, st)"
| "step WantCommaOrClose (FArr xs # st) Comma = Some (WantValue, FArr xs # st)"
| "step WantCommaOrClose (FObj ms # st) Comma = Some (WantKey, FObj ms # st)"
| "step WantCommaOrClose (FArr xs # st) RBrack = after_value (JArr (rev xs)) st"
| "step WantCommaOrClose (FObj ms # st) RBrace = after_value (JObj (rev ms)) st"
| "step m st t = None"

fun run_parser :: "mode \<Rightarrow> frame list \<Rightarrow> token list \<Rightarrow> jsval option" where
  "run_parser (Finished v) st [] = Some v"
| "run_parser m st [] = None"
| "run_parser m st (t # ts) =
    (case step m st t of None \<Rightarrow> None | Some (m1, st1) \<Rightarrow> run_parser m1 st1 ts)"

definition JSON_parse :: "jsstring \<Rightarrow> js_error + jsval" where
  "JSON_parse s =
    (case tokenize s of
       None \<Rightarrow> Inl SyntaxError
     | Some ts \<Rightarrow>
         (case run_parser WantValue [] ts of None \<Rightarrow> Inl SyntaxError | Some v \<Rightarrow> Inr v))"


section \<open>config/config.js\<close>

datatype api_style = Gemini | OpenAI

text \<open>
  The constants of the module, read once from the environment.  \<open>DEFAULT_MODEL\<close> is
  \<^verbatim>\<open>process.env.DEFAULT_MODEL || ''\<close>, always a string; \<open>API_STYLE\<close> is what
  \<^verbatim>\<open>getApiStyle(URL_HOST)\<close> returned at start-up.
\<close>

record config =
  URL_HOST :: jsstring
  API_KEY :: jsstring
  DEFAULT_MODEL :: jsstring
  API_STYLE :: api_style
  SUPPORTED_MODELS :: "jsstring list"

definition mapModel :: "config \<Rightarrow> jsval \<Rightarrow> jsval" where
  "mapModel cfg name = (if DEFAULT_MODEL cfg \<noteq> [] then JStr (DEFAULT_MODEL cfg) else name)"

text \<open>
  \<^verbatim>\<open>const chosenModel = mapModel(model || DEFAULT_MODEL)\<close>, the resolver as every
  handler calls it.
\<close>

definition chosenModel :: "config \<Rightarrow> jsval \<Rightarrow> jsval" where
  "chosenModel cfg model = mapModel cfg (js_or model (JStr (DEFAULT_MODEL cfg)))"

section \<open>utils/apiUtils.js\<close>

text \<open>
  What \<^verbatim>\<open>axios.post\<close> is called with.  A URL is a template literal: its pieces are
  literal text and interpolated values.  \<open>Interp v\<close> stands for the text of
  \<^verbatim>\<open>${v}\<close>, \<open>Coerced v\<close> for the text \<^verbatim>\<open>String(v)\<close> and \<open>Stringified v\<close> for
  \<^verbatim>\<open>JSON.stringify(v)\<close>.  The first two exist only for a convertible \<open>v\<close>: where
  the conversion throws, the function throws and \<^verbatim>\<open>axios.post\<close> is never called.
\<close>

datatype piece = Lit jsstring | Interp jsval

datatype part_text = Verbatim jsstring | Stringified jsval

record content_entry =
  entry_role :: jsval
  entry_parts :: "part_text list"

datatype formatted_input = AsGiven jsval | Coerced jsval

datatype payload =
    GenerateContent "content_entry list" jsval
  | ChatCompletions "(jsstring \<times> jsval) list"
  | EmbedContent formatted_input
  | Embeddings jsval formatted_input "(jsstring \<times> jsval) list"

record upstream_request =
  req_url :: "piece list"
  req_payload :: payload
  req_streaming :: bool

text \<open>
  \<^verbatim>\<open>makeChatRequest\<close> up to its call of \<^verbatim>\<open>axios.post\<close>: the request it builds, or
  the TypeError of \<^verbatim>\<open>(messages || []).map(...)\<close> when \<^verbatim>\<open>messages\<close> is truthy and
  not an array, or when a message is \<^verbatim>\<open>null\<close>, or the TypeError of the URL's
  \<^verbatim>\<open>${model}\<close> when the model is not convertible.  \<open>req_streaming\<close> is
  \<^verbatim>\<open>responseType === 'stream'\<close>.  The headers, the key and the timeouts of the
  request are not modelled.
\<close>

fun mapM :: "('a \<Rightarrow> js_error + 'b) \<Rightarrow> 'a list \<Rightarrow> js_error + 'b list" where
  "mapM f [] = Inr []"
| "mapM f (x # xs) = bind (f x) (\<lambda>y. bind (mapM f xs) (\<lambda>ys. Inr (y # ys)))"

definition gemini_content :: "jsval \<Rightarrow> js_error + content_entry" where
  "gemini_content m =
    bind (get m (js ''role'')) (\<lambda>role.
    bind (get m (js ''content'')) (\<lambda>content.
      Inr \<lparr>entry_role = (if role = JStr (js ''system'') then JStr (js ''user'') else role),
           entry_parts = [case content of JStr s \<Rightarrow> Verbatim s | _ \<Rightarrow> Stringified content]\<rparr>))"

definition gemini_contents :: "jsval \<Rightarrow> js_error + content_entry list" where
  "gemini_contents messages =
    (case js_or messages (JArr []) of
       JArr ms \<Rightarrow> mapM gemini_content ms
     | _ \<Rightarrow> Inl TypeError)"

definition makeChatRequest ::
  "config \<Rightarrow> jsval \<Rightarrow> jsval \<Rightarrow> jsval \<Rightarrow> (jsstring \<times> jsval) list \<Rightarrow> js_error + upstream_request" where
  "makeChatRequest cfg model messages stream0 otherParams =
    (let stream = (if stream0 = JUndefined then JBool True else stream0) in
     if API_STYLE cfg = Gemini then
       bind (gemini_contents messages) (\<lambda>contents.
         if convertible model then
           Inr \<lparr>req_url = [Lit (URL_HOST cfg), Lit (js ''/models/''), Interp model,
                            Lit (js '':generateContent'')],
                req_payload = GenerateContent contents
                                (js_or (lookup otherParams (js ''max_tokens'')) (JNum 2048)),
                req_streaming = False\<rparr>
         else Inl TypeError)
     else
       Inr \<lparr>req_url = [Lit (URL_HOST cfg), Lit (js ''/chat/completions'')],
            req_payload = ChatCompletions
                            ([(js ''model'', model), (js ''messages'', messages),
                              (js ''stream'', stream), (js ''max_tokens'', JNum 3000)]
                             @ otherParams),
            req_streaming = truthy stream\<rparr>)"

text \<open>
  \<^verbatim>\<open>makeEmbeddingsRequest\<close> up to its call of \<^verbatim>\<open>axios.post\<close>: the request it
  builds, or the TypeError it throws before the call.  An array or a string is sent as
  it is, anything else as \<^verbatim>\<open>String(input)\<close>, which throws when the input is not
  convertible; under the content-generation style the URL's \<^verbatim>\<open>${model}\<close> throws
  when the model is not convertible.
\<close>

definition makeEmbeddingsRequest ::
  "config \<Rightarrow> jsval \<Rightarrow> jsval \<Rightarrow> (jsstring \<times> jsval) list \<Rightarrow> js_error + upstream_request" where
  "makeEmbeddingsRequest cfg model input otherParams =
    bind (case input of
            JArr xs \<Rightarrow> Inr (AsGiven input)
          | JStr s \<Rightarrow> Inr (AsGiven input)
          | _ \<Rightarrow> if convertible input then Inr (Coerced input) else Inl TypeError)
      (\<lambda>formattedInput.
         if API_STYLE cfg = Gemini then
           (if convertible model then
              Inr \<lparr>req_url = [Lit (URL_HOST cfg), Lit (js ''/models/''), Interp model,
                               Lit (js '':embedContent'')],
                   req_payload = EmbedContent formattedInput,
                   req_streaming = False\<rparr>
            else Inl TypeError)
         else
           Inr \<lparr>req_url = [Lit (URL_HOST cfg), Lit (js ''/embeddings'')],
                req_payload = Embeddings model formattedInput otherParams,
                req_streaming = False\<rparr>)"

section \<open>Effects of a handler\<close>

text \<open>
  A handler is modelled by the list of its effects, in order.

  \<open>chunk\<close> is the \<^verbatim>\<open>chat.completion.chunk\<close> object of the OpenAI-compatible surface
  without its fabricated fields: \<open>chunk_id\<close> is \<open>Some\<close> the upstream's id, or \<open>None\<close>
  when the handler fabricates one from the clock and \<^verbatim>\<open>Math.random()\<close>; the creation
  time is left out, as are the fields that are always \<^verbatim>\<open>null\<close>.  \<open>line_frame\<close> is
  the frame of the local-runner surface without its \<^verbatim>\<open>created_at\<close>; the terminal
  frame carries \<open>timing\<close>, six counters computed from random draws.

  \<open>WriteChunk c\<close> is \<^verbatim>\<open>res.write(`data: ${JSON.stringify(c)}\n\n`)\<close>, \<open>WriteText s\<close> is
  \<^verbatim>\<open>res.write(s)\<close>, \<open>WriteLine f\<close> is \<^verbatim>\<open>res.write(JSON.stringify(f) + '\n')\<close>,
  \<open>SendJson n v\<close> is \<^verbatim>\<open>res.status(n).json(v)\<close>, \<open>Request r\<close> is the call of
  \<^verbatim>\<open>axios.post\<close>, \<open>Delay n\<close> is \<^verbatim>\<open>await delay(n)\<close>, and the two log effects are the
  \<^verbatim>\<open>console\<close> calls of a catch block and of the retry branch.  A \<open>failure\<close> is what
  a catch block receives: an error thrown by the handler's own code, the error of
  \<^verbatim>\<open>res.setHeader\<close> after the headers were sent, or the rejection of the upstream
  call with its \<^verbatim>\<open>error.response?.status\<close>.
\<close>


record chunk =
  chunk_id :: "jsval option"
  chunk_model :: jsval
  chunk_role :: jsval
  chunk_content :: jsval
  chunk_finish_reason :: jsval
  chunk_matched_stop :: jsval

record timing =
  total_duration :: int
  load_duration :: int
  prompt_eval_count :: int
  prompt_eval_duration :: int
  eval_count :: int
  eval_duration :: int

record line_frame =
  line_model :: jsval
  line_content :: jsval
  line_done :: bool
  line_done_reason :: "jsstring option"
  line_timing :: "timing option"

datatype failure = Thrown js_error | HeadersSent | Rejected "nat option"

datatype effect =
    Request upstream_request
  | Delay nat
  | SetHeader jsstring jsstring
  | WriteChunk chunk
  | WriteText jsstring
  | WriteLine line_frame
  | EndResponse
  | SendJson nat jsval
  | LogError failure
  | LogRetry

section \<open>The stream translator of chatCompletions\<close>

text \<open>
  The \<^verbatim>\<open>data\<close> and \<^verbatim>\<open>end\<close> callbacks of \<^verbatim>\<open>chatCompletions\<close>.  \<open>model\<close> is the
  \<^verbatim>\<open>model\<close> of the request body.  \<open>streamResponse\<close> builds the frame of one parsed
  line; reading \<^verbatim>\<open>vikeyResponse.id\<close> throws when the line parsed to \<^verbatim>\<open>null\<close>.
  \<open>chatCompletions_messages\<close> is the \<^verbatim>\<open>while (true)\<close> loop on the buffer: it
  returns the buffer that is left and the effects.  An exception leaves the loop for
  the catch block of the callback, which logs it; the buffer has then already been
  advanced past the line that threw.  \<open>chatCompletions_events\<close> runs the callbacks over
  the chunks of a stream, in order, and then the \<^verbatim>\<open>end\<close> callback.
\<close>


definition streamResponse :: "jsval \<Rightarrow> jsval \<Rightarrow> js_error + chunk" where
  "streamResponse model vikeyResponse =
    bind (get vikeyResponse (js ''id'')) (\<lambda>vid.
    bind (get vikeyResponse (js ''choices'')) (\<lambda>choices.
      Inr \<lparr>chunk_id = (if truthy vid then Some vid else None),
           chunk_model = js_or model (JStr (js ''meta-llama/llama-3.1-8b-instruct/fp-8'')),
           chunk_role = js_or (opt_get (opt_get (opt_index0 choices) (js ''delta'')) (js ''role'')) JNull,
           chunk_content =
             js_or (opt_get (opt_get (opt_index0 choices) (js ''delta'')) (js ''content'')) (JStr []),
           chunk_finish_reason = js_or (opt_get (opt_index0 choices) (js ''finish_reason'')) JNull,
           chunk_matched_stop = JNull\<rparr>))"

lemma indexOf_Some_less: "indexOf c xs = Some i \<Longrightarrow> i < length xs"
  by (induction xs arbitrary: i) (auto split: if_splits)

function chatCompletions_messages :: "jsval \<Rightarrow> jsstring \<Rightarrow> jsstring \<times> effect list" where
  "chatCompletions_messages model buffer =
    (case indexOf 10 buffer of
       None \<Rightarrow> (buffer, [])
     | Some messageEnd \<Rightarrow>
         (let message = take messageEnd buffer;
              buffer1 = drop (Suc messageEnd) buffer
          in if trim message = [] then chatCompletions_messages model buffer1
             else if trim (strip_data_prefix message) = js ''[DONE]'' then
               apsnd ((#) (WriteText (js ''data: [DONE]\<newline>\<newline>'')))
                 (chatCompletions_messages model buffer1)
             else
               (case bind (JSON_parse (strip_data_prefix message)) (streamResponse model) of
                  Inl e \<Rightarrow> (buffer1, [LogError (Thrown e)])
                | Inr frame \<Rightarrow>
                    apsnd ((#) (WriteChunk frame))
                      (chatCompletions_messages model buffer1))))"
  by pat_completeness auto
termination
  by (relation "measure (\<lambda>(model, buffer). length buffer)")
     (auto dest: indexOf_Some_less)

definition chatCompletions_on_data :: "jsval \<Rightarrow> jsstring \<Rightarrow> string \<Rightarrow> jsstring \<times> effect list" where
  "chatCompletions_on_data model buffer chunk =
     chatCompletions_messages model (buffer @ toString chunk)"

definition chatCompletions_on_end :: "jsval \<Rightarrow> effect list" where
  "chatCompletions_on_end model =
    [WriteChunk \<lparr>chunk_id = None,
                 chunk_model = js_or model (JStr (js ''meta-llama/llama-3.1-8b-instruct/fp-8'')),
                 chunk_role = JNull,
                 chunk_content = JStr [],
                 chunk_finish_reason = JStr (js ''stop''),
                 chunk_matched_stop = JNum 128009\<rparr>,
     WriteText (js ''data: [DONE]\<newline>\<newline>''),
     EndResponse]"

fun chatCompletions_events :: "jsval \<Rightarrow> jsstring \<Rightarrow> string list \<Rightarrow> effect list" where
  "chatCompletions_events model buffer [] = chatCompletions_on_end model"
| "chatCompletions_events model buffer (chunk # chunks) =
     snd (chatCompletions_on_data model buffer chunk)
     @ chatCompletions_events model (fst (chatCompletions_on_data model buffer chunk)) chunks"

section \<open>The stream translator of chat\<close>

text \<open>
  The same callbacks in \<^verbatim>\<open>chat\<close>, the local-runner handler; \<open>chosen\<close> is
  \<^verbatim>\<open>chosenModel\<close>.  Reading \<^verbatim>\<open>vikeyResponse.choices[0].delta.content\<close> throws
  when a link of the chain is \<^verbatim>\<open>null\<close> or \<^verbatim>\<open>undefined\<close>.  The loop calls
  \<^verbatim>\<open>res.header('Content-Type', 'application/json')\<close> before every
  \<^verbatim>\<open>res.write\<close>; the first write sends the headers, and \<^verbatim>\<open>res.setHeader\<close>
  throws once they are sent, so the state of the loop includes \<open>headersSent\<close>.
  \<open>random k\<close> is the \<open>k\<close>-th draw of \<^verbatim>\<open>Math.random()\<close> in the \<^verbatim>\<open>end\<close> callback and
  \<open>random_int r n\<close> is \<^verbatim>\<open>Math.floor(r * n)\<close>, in exact arithmetic.
\<close>


definition chat_streamResponse :: "jsval \<Rightarrow> jsval \<Rightarrow> js_error + line_frame" where
  "chat_streamResponse chosen vikeyResponse =
    bind (get vikeyResponse (js ''choices'')) (\<lambda>choices.
    bind (index0 choices) (\<lambda>choice.
    bind (get choice (js ''delta'')) (\<lambda>delta.
    bind (get delta (js ''content'')) (\<lambda>content.
      Inr \<lparr>line_model = js_or chosen (JStr (js ''meta-llama/Meta-Llama-3-8B-Instruct'')),
           line_content = js_or content (JStr []),
           line_done = False,
           line_done_reason = None,
           line_timing = None\<rparr>))))"

definition emitted :: "effect list \<Rightarrow> jsstring \<times> bool \<times> effect list \<Rightarrow> jsstring \<times> bool \<times> effect list" where
  "emitted es r = (fst r, fst (snd r), es @ snd (snd r))"

function chat_messages :: "jsval \<Rightarrow> bool \<Rightarrow> jsstring \<Rightarrow> jsstring \<times> bool \<times> effect list" where
  "chat_messages chosen headersSent buffer =
    (case indexOf 10 buffer of
       None \<Rightarrow> (buffer, headersSent, [])
     | Some messageEnd \<Rightarrow>
         (let message = take messageEnd buffer;
              buffer1 = drop (Suc messageEnd) buffer
          in if trim message = [] then chat_messages chosen headersSent buffer1
             else if trim (strip_data_prefix message) = js ''[DONE]'' then
               chat_messages chosen headersSent buffer1
             else
               (case bind (JSON_parse (strip_data_prefix message)) (chat_streamResponse chosen) of
                  Inl e \<Rightarrow> (buffer1, headersSent, [LogError (Thrown e)])
                | Inr frame \<Rightarrow>
                    if headersSent then (buffer1, headersSent, [LogError HeadersSent])
                    else emitted [SetHeader (js ''Content-Type'') (js ''application/json''),
                                  WriteLine frame]
                           (chat_messages chosen True buffer1))))"
  by pat_completeness auto
termination
  by (relation "measure (\<lambda>(chosen, headersSent, buffer). length buffer)")
     (auto dest: indexOf_Some_less)

definition chat_on_data ::
  "jsval \<Rightarrow> bool \<Rightarrow> jsstring \<Rightarrow> string \<Rightarrow> jsstring \<times> bool \<times> effect list" where
  "chat_on_data chosen headersSent buffer chunk =
     chat_messages chosen headersSent (buffer @ toString chunk)"

definition random_int :: "rat \<Rightarrow> int \<Rightarrow> int" where
  "random_int r n = \<lfloor>r * of_int n\<rfloor>"

definition chat_on_end :: "jsval \<Rightarrow> (nat \<Rightarrow> rat) \<Rightarrow> effect list" where
  "chat_on_end chosen random =
    [WriteLine \<lparr>line_model = js_or chosen (JStr (js ''qwen2.5:0.5b'')),
                line_content = JStr [],
                line_done = True,
                line_done_reason = Some (js ''stop''),
                line_timing = Some
                  \<lparr>total_duration = random_int (random 0) 20000000000,
                   load_duration = random_int (random 1) 3000000000,
                   prompt_eval_count = random_int (random 2) 50 + 10,
                   prompt_eval_duration = random_int (random 3) 500000000,
                   eval_count = random_int (random 4) 1000 + 100,
                   eval_duration = random_int (random 5) 17000000000\<rparr>\<rparr>,
     EndResponse]"

fun chat_events ::
  "jsval \<Rightarrow> (nat \<Rightarrow> rat) \<Rightarrow> bool \<Rightarrow> jsstring \<Rightarrow> string list \<Rightarrow> effect list" where
  "chat_events chosen random headersSent buffer [] = chat_on_end chosen random"
| "chat_events chosen random headersSent buffer (chunk # chunks) =
     snd (snd (chat_on_data chosen headersSent buffer chunk))
     @ chat_events chosen random (fst (snd (chat_on_data chosen headersSent buffer chunk)))
         (fst (chat_on_data chosen headersSent buffer chunk)) chunks"

section \<open>Request bodies\<close>

text \<open>
  \<^verbatim>\<open>const { model, messages, stream = d, ...otherParams } = req.body\<close>: destructuring
  \<^verbatim>\<open>null\<close> or \<^verbatim>\<open>undefined\<close> throws; the rest is the own enumerable properties of
  the body without the named ones (\<open>dec\<close> writes an index in decimal, for the index
  properties of an array or a string).
\<close>


function dec :: "nat \<Rightarrow> jsstring" where
  "dec n = (if n < 10 then [48 + n] else dec (n div 10) @ [48 + n mod 10])"
  by pat_completeness auto
termination
  by (relation "measure id") auto

fun own_props :: "jsval \<Rightarrow> (jsstring \<times> jsval) list" where
  "own_props (JObj kvs) = kvs"
| "own_props (JArr xs) = zip (map dec [0..<length xs]) xs"
| "own_props (JStr s) = zip (map dec [0..<length s]) (map (\<lambda>c. JStr [c]) s)"
| "own_props v = []"

definition rest_props :: "jsstring list \<Rightarrow> jsval \<Rightarrow> (jsstring \<times> jsval) list" where
  "rest_props keys body = filter (\<lambda>kv. fst kv \<notin> set keys) (own_props body)"

record chat_body =
  body_model :: jsval
  body_messages :: jsval
  body_stream :: jsval
  body_otherParams :: "(jsstring \<times> jsval) list"

definition destructure :: "jsval \<Rightarrow> jsval \<Rightarrow> js_error + chat_body" where
  "destructure stream_default body =
    bind (get body (js ''model'')) (\<lambda>model.
    bind (get body (js ''messages'')) (\<lambda>messages.
    bind (get body (js ''stream'')) (\<lambda>stream.
      Inr \<lparr>body_model = model,
           body_messages = messages,
           body_stream = (if stream = JUndefined then stream_default else stream),
           body_otherParams = rest_props [js ''model'', js ''messages'', js ''stream''] body\<rparr>)))"

section \<open>The upstream\<close>

text \<open>
  What a call of \<^verbatim>\<open>makeChatRequest\<close> or \<^verbatim>\<open>makeEmbeddingsRequest\<close> comes back with:
  the promise rejects with an error whose \<^verbatim>\<open>error.response?.status\<close> is given
  (\<open>None\<close> when it has none), or it resolves.  \<open>Resolves data chunks\<close>: for a JSON
  response \<^verbatim>\<open>response.data\<close> is \<open>data\<close>; for a stream response it is a stream that
  delivers the byte chunks \<open>chunks\<close> and then ends.
\<close>


datatype outcome = Rejects "nat option" | Resolves jsval "string list"

section \<open>chatCompletions\<close>

text \<open>
  \<open>chatCompletions_try\<close> is the body of the inner \<^verbatim>\<open>try\<close>: its effects, and the
  failure it ends with, if any.  \<open>chatCompletions_retry\<close> is the \<^verbatim>\<open>while\<close> loop with
  its catch block; \<open>upstream n\<close> is what the call of iteration \<open>n\<close> comes back with.
  \<open>chatCompletions\<close> is the handler with its outer catch block.  \<open>set_model\<close> is
  \<^verbatim>\<open>response.data.model = chosenModel\<close>: it throws on \<^verbatim>\<open>null\<close>, adds the property
  to an object and changes nothing that \<^verbatim>\<open>res.json\<close> sends otherwise.
\<close>


definition maxRetries :: nat where
  "maxRetries = 3"

fun set_model :: "jsval \<Rightarrow> jsval \<Rightarrow> js_error + jsval" where
  "set_model JUndefined chosen = Inl TypeError"
| "set_model JNull chosen = Inl TypeError"
| "set_model (JObj kvs) chosen = Inr (JObj (kvs @ [(js ''model'', chosen)]))"
| "set_model v chosen = Inr v"

definition server_error :: jsval where
  "server_error =
    JObj [(js ''error'', JObj [(js ''message'', JStr (js ''Failed to proxy request'')),
                              (js ''type'', JStr (js ''server_error''))])]"

definition chatCompletions_try ::
  "config \<Rightarrow> outcome \<Rightarrow> jsval \<Rightarrow> chat_body \<Rightarrow> effect list \<times> failure option" where
  "chatCompletions_try cfg answer chosen b =
    (let wantsStream = js_and (body_stream b) (JBool (API_STYLE cfg \<noteq> Gemini)) in
     case makeChatRequest cfg chosen (body_messages b) wantsStream (body_otherParams b) of
       Inl e \<Rightarrow> ([], Some (Thrown e))
     | Inr request \<Rightarrow>
         (case answer of
            Rejects st \<Rightarrow> ([Request request], Some (Rejected st))
          | Resolves data chunks \<Rightarrow>
              if truthy wantsStream then
                ([Request request,
                  SetHeader (js ''Content-Type'') (js ''text/event-stream''),
                  SetHeader (js ''Cache-Control'') (js ''no-cache''),
                  SetHeader (js ''Connection'') (js ''keep-alive'')]
                 @ chatCompletions_events (body_model b) [] chunks, None)
              else
                (case set_model data chosen of
                   Inl e \<Rightarrow>
                     ([Request request, SetHeader (js ''Content-Type'') (js ''application/json'')],
                      Some (Thrown e))
                 | Inr d \<Rightarrow>
                     ([Request request, SetHeader (js ''Content-Type'') (js ''application/json''),
                       SendJson 200 d], None))))"

function chatCompletions_retry ::
  "config \<Rightarrow> (nat \<Rightarrow> outcome) \<Rightarrow> jsval \<Rightarrow> chat_body \<Rightarrow> nat \<Rightarrow> effect list \<times> failure option" where
  "chatCompletions_retry cfg upstream chosen b retryCount =
    (if retryCount < maxRetries then
       (case chatCompletions_try cfg (upstream retryCount) chosen b of
          (es, None) \<Rightarrow> (es, None)
        | (es, Some err) \<Rightarrow>
            if err = Rejected (Some 429) \<and> retryCount < maxRetries - 1 then
              apfst ((@) (es @ [LogRetry, Delay 5000]))
                (chatCompletions_retry cfg upstream chosen b (retryCount + 1))
            else (es, Some err))
     else ([], None))"
  by pat_completeness auto
termination
  by (relation "measure (\<lambda>(cfg, upstream, chosen, b, retryCount). maxRetries - retryCount)") auto

definition chatCompletions :: "config \<Rightarrow> (nat \<Rightarrow> outcome) \<Rightarrow> jsval \<Rightarrow> effect list" where
  "chatCompletions cfg upstream body =
    (case destructure (JBool False) body of
       Inl e \<Rightarrow> [LogError (Thrown e), SendJson 500 server_error]
     | Inr b \<Rightarrow>
         (case chatCompletions_retry cfg upstream (chosenModel cfg (body_model b)) b 0 of
            (es, None) \<Rightarrow> es
          | (es, Some err) \<Rightarrow> es @ [LogError err, SendJson 500 server_error]))"

section \<open>embeddings\<close>

text \<open>
  The handler of \<^verbatim>\<open>/v1/embeddings\<close>.  A failure of \<^verbatim>\<open>makeEmbeddingsRequest\<close>, an
  error thrown before the upstream call or the rejection of the call, is logged twice,
  by the catch block of \<^verbatim>\<open>makeEmbeddingsRequest\<close> and by the handler's.
\<close>


definition parseBodyIfString :: "jsval \<Rightarrow> jsval" where
  "parseBodyIfString body =
    (case body of
       JStr s \<Rightarrow> (case JSON_parse s of Inl parseError \<Rightarrow> body | Inr parsed \<Rightarrow> parsed)
     | _ \<Rightarrow> body)"

definition invalid_request_error :: "jsstring \<Rightarrow> jsval" where
  "invalid_request_error message =
    JObj [(js ''error'', JObj [(js ''message'', JStr message),
                              (js ''type'', JStr (js ''invalid_request_error''))])]"

definition embeddings_server_error :: jsval where
  "embeddings_server_error =
    JObj [(js ''error'',
           JObj [(js ''message'', JStr (js ''Failed to proxy request to intelligence.io'')),
                 (js ''type'', JStr (js ''server_error''))])]"

definition embeddings :: "config \<Rightarrow> outcome \<Rightarrow> jsval \<Rightarrow> effect list" where
  \<open>embeddings cfg answer reqBody =
    (let body = parseBodyIfString reqBody in
     case bind (get body (js ''model'')) (\<lambda>model.
          bind (get body (js ''input'')) (\<lambda>input. Inr (model, input))) of
       Inl e \<Rightarrow> [LogError (Thrown e), SendJson 500 embeddings_server_error]
     | Inr (model, input) \<Rightarrow>
         if \<not> truthy model then
           [SendJson 400 (invalid_request_error (js ''Missing required parameter: "model"''))]
         else if \<not> truthy input then
           [SendJson 400 (invalid_request_error (js ''Missing required parameter: "input"''))]
         else
           (case makeEmbeddingsRequest cfg model input
                   (rest_props [js ''model'', js ''input''] body) of
              Inl e \<Rightarrow> [LogError (Thrown e), LogError (Thrown e),
                         SendJson 500 embeddings_server_error]
            | Inr request \<Rightarrow>
                Request request
                # (case answer of
                     Rejects st \<Rightarrow> [LogError (Rejected st), LogError (Rejected st),
                                    SendJson 500 embeddings_server_error]
                   | Resolves data chunks \<Rightarrow> [SendJson 200 data])))\<close>

section \<open>The local-runner embedding endpoints\<close>

text \<open>
  The handlers of \<^verbatim>\<open>/api/embeddings\<close> and \<^verbatim>\<open>/api/embed\<close>.  \<open>parseRequestBody\<close>
  is given the body as the body parsers left it (they produce no \<^verbatim>\<open>Buffer\<close>).  The
  \<^verbatim>\<open>details\<close> of the 500 answer, the message of the error, are left out.
\<close>


definition parseRequestBody :: "jsval \<Rightarrow> jsval" where
  "parseRequestBody reqBody =
    js_or (case reqBody of
             JStr s \<Rightarrow> (case JSON_parse s of Inl parseError \<Rightarrow> reqBody | Inr parsed \<Rightarrow> parsed)
           | _ \<Rightarrow> reqBody)
          (JObj [])"

definition failed_request :: jsval where
  "failed_request = JObj [(js ''error'', JStr (js ''Failed request''))]"

definition first_embedding :: "jsval \<Rightarrow> js_error + jsval" where
  "first_embedding intelligenceResponse =
    bind (get intelligenceResponse (js ''data'')) (\<lambda>d.
    bind (index0 d) (\<lambda>d0.
    bind (get d0 (js ''embedding'')) (\<lambda>e.
      Inr (JObj [(js ''embeddings'', JArr [e])]))))"

definition ollama_embed_call ::
  "config \<Rightarrow> outcome \<Rightarrow> jsval \<Rightarrow> jsval \<Rightarrow> jsval \<Rightarrow> effect list" where
  "ollama_embed_call cfg answer body model textToEmbed =
    (case makeEmbeddingsRequest cfg model textToEmbed
            (rest_props [js ''model'', js ''prompt'', js ''input''] body) of
       Inl e \<Rightarrow> [LogError (Thrown e), LogError (Thrown e), SendJson 500 failed_request]
     | Inr request \<Rightarrow>
         Request request
         # (case answer of
              Rejects st \<Rightarrow>
                [LogError (Rejected st), LogError (Rejected st), SendJson 500 failed_request]
            | Resolves data chunks \<Rightarrow>
                (case first_embedding data of
                   Inl e \<Rightarrow> [LogError (Thrown e), SendJson 500 failed_request]
                 | Inr reply \<Rightarrow> [SendJson 200 reply])))"

definition ollama_embeddings :: "config \<Rightarrow> outcome \<Rightarrow> jsval \<Rightarrow> effect list" where
  \<open>ollama_embeddings cfg answer reqBody =
    (let body = parseRequestBody reqBody in
     case bind (get body (js ''model'')) (\<lambda>m.
          bind (get body (js ''prompt'')) (\<lambda>p.
          bind (get body (js ''input'')) (\<lambda>i. Inr (m, p, i)))) of
       Inl e \<Rightarrow> [LogError (Thrown e), SendJson 500 failed_request]
     | Inr (m, p, i) \<Rightarrow>
         (let model = js_or m (JStr (js ''all-minilm''));
              prompt = js_or p i;
              input = js_or i p;
              textToEmbed = js_or (js_or input prompt) (JStr [])
          in if \<not> truthy model then
               [SendJson 400 (JObj [(js ''error'',
                  JStr (js ''Missing required parameter: "model"''))])]
             else if \<not> truthy textToEmbed then
               [SendJson 400 (JObj [(js ''error'',
                  JStr (js ''Missing required parameter: Either "prompt" or "input" must be provided''))])]
             else ollama_embed_call cfg answer body model textToEmbed))\<close>

definition ollama_embed :: "config \<Rightarrow> outcome \<Rightarrow> jsval \<Rightarrow> effect list" where
  \<open>ollama_embed cfg answer reqBody =
    (let body = parseRequestBody reqBody in
     case bind (get body (js ''model'')) (\<lambda>m.
          bind (get body (js ''prompt'')) (\<lambda>p.
          bind (get body (js ''input'')) (\<lambda>i. Inr (m, p, i)))) of
       Inl e \<Rightarrow> [LogError (Thrown e), SendJson 500 failed_request]
     | Inr (m, p, i) \<Rightarrow>
         (let model = js_or m (JStr (js ''all-minilm''));
              prompt = js_or p i;
              input = js_or i p;
              textToEmbed = js_or (js_or input prompt) (JStr [])
          in if \<not> truthy textToEmbed then
               [SendJson 400 (JObj [(js ''error'',
                  JStr (js ''Missing required parameter: Either "prompt" or "input" must be provided''))])]
             else ollama_embed_call cfg answer body model textToEmbed))\<close>

section \<open>utils/modelUtils.js\<close>

text \<open>
  A \<^verbatim>\<open>Date\<close> is modelled by its fields in local time: year, month (0 to 11), day of
  the month and time of day in milliseconds; the time zone is outside the model.
  \<open>setFullYear d y\<close> changes the year and, as ECMAScript's MakeDay does, carries a day
  that the month does not have in year \<open>y\<close> over into the next month.
  \<open>toString16\<close> is \<^verbatim>\<open>Number.prototype.toString(16)\<close> on integers.

  \<open>createModelObject currentDate random i name\<close>: \<open>random (i + k)\<close> is the \<open>k\<close>-th draw
  the call makes, 64 for the digest, then one for the size and one for the quantization
  level.  The fields \<^verbatim>\<open>parent_model\<close>, \<^verbatim>\<open>format\<close>, \<^verbatim>\<open>families\<close> and
  \<^verbatim>\<open>parameter_size\<close>, which depend on the name only, are left out.
  \<open>createModelObjects\<close> is \<^verbatim>\<open>SUPPORTED_MODELS.map(createModelObject)\<close>: \<open>clock t\<close> is
  the \<open>t\<close>-th reading of \<^verbatim>\<open>new Date()\<close>.
\<close>


record js_date =
  date_year :: int
  date_month :: nat
  date_day :: nat
  date_ms :: nat

definition leap_year :: "int \<Rightarrow> bool" where
  "leap_year y = (y mod 4 = 0 \<and> (y mod 100 \<noteq> 0 \<or> y mod 400 = 0))"

definition days_in_month :: "int \<Rightarrow> nat \<Rightarrow> nat" where
  "days_in_month y m =
    (if m = 1 then (if leap_year y then 29 else 28)
     else if m \<in> {3, 5, 8, 10} then 30 else 31)"

definition valid_date :: "js_date \<Rightarrow> bool" where
  "valid_date d = (date_month d < 12 \<and> 1 \<le> date_day d
                    \<and> date_day d \<le> days_in_month (date_year d) (date_month d)
                    \<and> date_ms d < 86400000)"

definition setFullYear :: "js_date \<Rightarrow> int \<Rightarrow> js_date" where
  "setFullYear d y =
    (if days_in_month y (date_month d) < date_day d
     then d\<lparr>date_year := y, date_month := date_month d + 1,
            date_day := date_day d - days_in_month y (date_month d)\<rparr>
     else d\<lparr>date_year := y\<rparr>)"

definition hex_digit :: "nat \<Rightarrow> nat" where
  "hex_digit d = (if d < 10 then 48 + d else 87 + d)"

function to_base16 :: "nat \<Rightarrow> jsstring" where
  "to_base16 n = (if n < 16 then [hex_digit n] else to_base16 (n div 16) @ [hex_digit (n mod 16)])"
  by pat_completeness auto
termination
  by (relation "measure id") auto

definition toString16 :: "int \<Rightarrow> jsstring" where
  "toString16 i = (if i < 0 then 45 # to_base16 (nat (- i)) else to_base16 (nat i))"

record model_object =
  object_name :: jsstring
  object_model :: jsstring
  object_modified_at :: js_date
  object_size :: int
  object_digest :: jsstring
  object_family :: jsstring
  object_quantization_level :: jsstring

definition createModelObject :: "js_date \<Rightarrow> (nat \<Rightarrow> rat) \<Rightarrow> nat \<Rightarrow> jsstring \<Rightarrow> model_object" where
  "createModelObject currentDate random i name =
    (let modifiedDate = setFullYear currentDate (date_year currentDate + 1);
         digest = concat (map (\<lambda>k. toString16 (random_int (random (i + k)) 16)) [0..<64])
     in \<lparr>object_name = name,
         object_model = name,
         object_modified_at = modifiedDate,
         object_size = random_int (random (i + 64)) 500000000 + 100000000,
         object_digest = digest,
         object_family = takeWhile (\<lambda>c. c \<noteq> 58) name,
         object_quantization_level =
           (if random (i + 65) > 1 / 2 then js ''Q4_K_M'' else js ''F16'')\<rparr>)"

fun createModelObjects ::
  "(nat \<Rightarrow> js_date) \<Rightarrow> (nat \<Rightarrow> rat) \<Rightarrow> nat \<Rightarrow> nat \<Rightarrow> jsstring list \<Rightarrow> model_object list" where
  "createModelObjects clock random t i [] = []"
| "createModelObjects clock random t i (name # names) =
     createModelObject (clock t) random i name
     # createModelObjects clock random (t + 1) (i + 66) names"

definition getModelList ::
  "config \<Rightarrow> (nat \<Rightarrow> js_date) \<Rightarrow> (nat \<Rightarrow> rat) \<Rightarrow> nat \<Rightarrow> nat \<Rightarrow> model_object list" where
  "getModelList cfg clock random t i =
     createModelObjects clock random t i (SUPPORTED_MODELS cfg)"

section \<open>Vocabulary of the properties\<close>

text \<open>
  \<open>is_request\<close> recognises an upstream call among the effects of a handler;
  \<open>retried request k\<close> is the trace of \<open>k\<close> calls that were each answered by a
  rate-limit error: the call, the log line and the wait of 5000 ms.
\<close>

definition is_request :: "effect \<Rightarrow> bool" where
  "is_request e = (case e of Request r \<Rightarrow> True | _ \<Rightarrow> False)"

definition retried :: "upstream_request \<Rightarrow> nat \<Rightarrow> effect list" where
  "retried request k = concat (replicate k [Request request, LogRetry, Delay 5000])"

text \<open>
  The entry the claim describes for one message: the role, with \<^verbatim>\<open>system\<close> turned
  into \<^verbatim>\<open>user\<close>, and one text part, the content itself when it is a string and
  \<^verbatim>\<open>JSON.stringify(content)\<close> otherwise.
\<close>

definition remapped :: "jsval \<Rightarrow> content_entry" where
  "remapped m =
    \<lparr>entry_role = (if opt_get m (js ''role'') = JStr (js ''system'') then JStr (js ''user'')
                    else opt_get m (js ''role'')),
     entry_parts = [case opt_get m (js ''content'') of
                      JStr s \<Rightarrow> Verbatim s
                    | content \<Rightarrow> Stringified content]\<rparr>"

text \<open>
  \<open>sendable cfg model input\<close>: no conversion to a string throws while the embeddings
  request is built.  The input is an array, or it is convertible (a string is); under
  the content-generation style the model is convertible.
\<close>

definition is_array :: "jsval \<Rightarrow> bool" where
  "is_array v = (case v of JArr xs \<Rightarrow> True | _ \<Rightarrow> False)"

definition sendable :: "config \<Rightarrow> jsval \<Rightarrow> jsval \<Rightarrow> bool" where
  "sendable cfg model input =
    ((is_array input \<or> convertible input) \<and> (API_STYLE cfg = Gemini \<longrightarrow> convertible model))"

text \<open>The characters \<^verbatim>\<open>0-9\<close> and \<^verbatim>\<open>a-f\<close>.\<close>

definition is_hex :: "nat \<Rightarrow> bool" where
  "is_hex c = ((48 \<le> c \<and> c \<le> 57) \<or> (97 \<le> c \<and> c \<le> 102))"

text \<open>
  \<open>logs_error es\<close>: a catch block ran among the effects \<open>es\<close>.  \<open>ascii chunk\<close>: every
  byte of the chunk is below 128.
\<close>

definition logs_error :: "effect list \<Rightarrow> bool" where
  "logs_error es = (\<exists>f. LogError f \<in> set es)"

definition ascii :: "string \<Rightarrow> bool" where
  "ascii chunk = (\<forall>b\<in>set chunk. (of_char b :: nat) < 128)"

section \<open>Basic facts\<close>

text \<open>
  The recursive equations of the loops are applied one step at a time, never by the
  simplifier on its own.
\<close>

declare chatCompletions_messages.simps [simp del]
declare chat_messages.simps [simp del]
declare chatCompletions_retry.simps [simp del]
declare to_base16.simps [simp del]

lemma js_eq_iff: "js a = js b \<longleftrightarrow> a = b"
  by (simp add: js_def inj_map_eq_map inj_on_def)

lemma js_Nil_iff: "js s = [] \<longleftrightarrow> s = []" "[] = js s \<longleftrightarrow> s = []"
  by (auto simp: js_def)

lemma bind_eq_Inr: "bind m f = Inr y \<longleftrightarrow> (\<exists>x. m = Inr x \<and> f x = Inr y)"
  by (cases m) auto

lemma bind_eq_Inl: "bind m f = Inl e \<longleftrightarrow> m = Inl e \<or> (\<exists>x. m = Inr x \<and> f x = Inl e)"
  by (cases m) auto

lemma get_opt_get:
  "get v k = (if v = JUndefined \<or> v = JNull then Inl TypeError else Inr (opt_get v k))"
  by (cases v) simp_all

lemma get_truthy: "truthy v \<Longrightarrow> get v k = Inr (opt_get v k)"
  by (cases v) simp_all

lemma mapM_map:
  "\<forall>x\<in>set xs. f x = Inr (g x) \<Longrightarrow> mapM f xs = Inr (map g xs)"
  by (induction xs) simp_all

lemma gemini_content_remapped:
  "m \<noteq> JNull \<Longrightarrow> m \<noteq> JUndefined \<Longrightarrow> gemini_content m = Inr (remapped m)"
  by (simp add: gemini_content_def remapped_def get_opt_get split: jsval.splits)

lemma mapM_gemini_content:
  "mapM gemini_content ms = Inr contents \<Longrightarrow> contents = map remapped ms"
proof (induction ms arbitrary: contents)
  case Nil
  then show ?case by simp
next
  case (Cons m ms)
  from Cons.prems obtain c cs where c: "gemini_content m = Inr c"
    and cs: "mapM gemini_content ms = Inr cs" and contents: "contents = c # cs"
    by (auto simp: bind_eq_Inr)
  from c have "m \<noteq> JNull" "m \<noteq> JUndefined"
    by (auto simp: gemini_content_def)
  then have "gemini_content m = Inr (remapped m)" by (rule gemini_content_remapped)
  with c have "c = remapped m" by simp
  with Cons.IH [OF cs] contents show ?case by simp
qed

lemma makeEmbeddingsRequest_sendable:
  "sendable cfg model input \<Longrightarrow>
     \<exists>request. makeEmbeddingsRequest cfg model input otherParams = Inr request"
  by (cases input) (auto simp: sendable_def is_array_def makeEmbeddingsRequest_def)

lemma makeEmbeddingsRequest_not_sendable:
  "\<not> sendable cfg model input \<Longrightarrow>
     makeEmbeddingsRequest cfg model input otherParams = Inl TypeError"
  by (cases input) (auto simp: sendable_def is_array_def makeEmbeddingsRequest_def)

lemma random_int_bounds:
  assumes "0 \<le> r" "r < 1" "0 < n"
  shows "0 \<le> random_int r n \<and> random_int r n < n"
proof -
  from assms have "0 \<le> r * of_int n" by simp
  then have lo: "0 \<le> \<lfloor>r * of_int n\<rfloor>" by simp
  from assms have "r * of_int n < 1 * of_int n"
    by (intro mult_strict_right_mono) simp_all
  then have "r * of_int n < of_int n" by simp
  then have "\<lfloor>r * of_int n\<rfloor> < n" by (simp add: floor_less_iff)
  with lo show ?thesis by (simp add: random_int_def)
qed


section \<open>The model identity resolver\<close>

text \<open>
  Claim C6.  The resolver is a total function of the configuration and the requested
  name.  With an override configured (\<open>DEFAULT_MODEL\<close> non-empty) it returns the
  override whatever was requested.  With none configured, a requested name (any
  string) is returned unchanged, a truthy request of any type is returned unchanged,
  and an absent name (\<^verbatim>\<open>undefined\<close>) falls back to the configured default.
\<close>

theorem mapModel_resolver:
  "(DEFAULT_MODEL cfg \<noteq> [] \<longrightarrow>
      mapModel cfg name = JStr (DEFAULT_MODEL cfg) \<and>
      chosenModel cfg requested = JStr (DEFAULT_MODEL cfg)) \<and>
   (DEFAULT_MODEL cfg = [] \<longrightarrow>
      mapModel cfg name = name \<and>
      chosenModel cfg (JStr s) = JStr s \<and>
      (truthy requested \<longrightarrow> chosenModel cfg requested = requested) \<and>
      chosenModel cfg JUndefined = JStr (DEFAULT_MODEL cfg))"
  by (cases s) (simp_all add: mapModel_def chosenModel_def js_or_def)

theorem mapModel_resolver_witness:
  "DEFAULT_MODEL \<lparr>URL_HOST = js ''h'', API_KEY = js ''k'', DEFAULT_MODEL = js ''qwen'',
       API_STYLE = OpenAI, SUPPORTED_MODELS = []\<rparr> \<noteq> [] \<and>
   chosenModel \<lparr>URL_HOST = js ''h'', API_KEY = js ''k'', DEFAULT_MODEL = js ''qwen'',
       API_STYLE = OpenAI, SUPPORTED_MODELS = []\<rparr> (JStr (js ''llama'')) = JStr (js ''qwen'') \<and>
   DEFAULT_MODEL \<lparr>URL_HOST = js ''h'', API_KEY = js ''k'', DEFAULT_MODEL = [],
       API_STYLE = OpenAI, SUPPORTED_MODELS = []\<rparr> = [] \<and>
   truthy (JStr (js ''llama'')) \<and>
   chosenModel \<lparr>URL_HOST = js ''h'', API_KEY = js ''k'', DEFAULT_MODEL = [],
       API_STYLE = OpenAI, SUPPORTED_MODELS = []\<rparr> (JStr (js ''llama'')) = JStr (js ''llama'') \<and>
   chosenModel \<lparr>URL_HOST = js ''h'', API_KEY = js ''k'', DEFAULT_MODEL = [],
       API_STYLE = OpenAI, SUPPORTED_MODELS = []\<rparr> JUndefined = JStr []"
  using mapModel_resolver [of "\<lparr>URL_HOST = js ''h'', API_KEY = js ''k'', DEFAULT_MODEL = js ''qwen'',
       API_STYLE = OpenAI, SUPPORTED_MODELS = []\<rparr>" JUndefined "JStr (js ''llama'')" "js ''llama''"]
    mapModel_resolver [of "\<lparr>URL_HOST = js ''h'', API_KEY = js ''k'', DEFAULT_MODEL = [],
       API_STYLE = OpenAI, SUPPORTED_MODELS = []\<rparr>" JUndefined "JStr (js ''llama'')" "js ''llama''"]
  by (simp add: js_def)

section \<open>The end-of-stream sentinel\<close>

lemma indexOf_append: "c \<notin> set xs \<Longrightarrow> indexOf c (xs @ c # ys) = Some (length xs)"
  by (induction xs) auto

lemma indexOf_None_iff: "indexOf c xs = None \<longleftrightarrow> c \<notin> set xs"
  by (induction xs) auto

lemma trim_Nil_iff: "trim s = [] \<longleftrightarrow> (\<forall>c\<in>set s. is_ws c)"
proof
  assume "trim s = []"
  then have "dropWhile is_ws (rev (dropWhile is_ws s)) = []"
    by (simp add: trim_def)
  then have all: "\<forall>c\<in>set (dropWhile is_ws s). is_ws c"
    by (simp add: dropWhile_eq_Nil_conv)
  have "dropWhile is_ws s = []"
  proof (rule ccontr)
    assume ne: "dropWhile is_ws s \<noteq> []"
    then have "\<not> is_ws (hd (dropWhile is_ws s))" by (rule hd_dropWhile)
    moreover from ne have "hd (dropWhile is_ws s) \<in> set (dropWhile is_ws s)" by simp
    ultimately show False using all by blast
  qed
  then show "\<forall>c\<in>set s. is_ws c" by (simp add: dropWhile_eq_Nil_conv)
next
  assume "\<forall>c\<in>set s. is_ws c"
  then have d: "dropWhile is_ws s = []" by (simp add: dropWhile_eq_Nil_conv)
  show "trim s = []" by (simp add: trim_def d)
qed

lemma sentinel_line_not_blank:
  assumes "trim (strip_data_prefix message) = js ''[DONE]''"
  shows "trim message \<noteq> []"
proof
  assume blank: "trim message = []"
  then have ws: "\<forall>c\<in>set message. is_ws c" by (simp add: trim_Nil_iff)
  have "take 6 message \<noteq> js ''data: ''"
  proof
    assume p: "take 6 message = js ''data: ''"
    then have "100 \<in> set (take 6 message)" by (simp add: js_def)
    then have "100 \<in> set message" by (rule in_set_takeD)
    with ws have "is_ws 100" by blast
    then show False by (simp add: is_ws_def)
  qed
  then have "strip_data_prefix message = message" by (simp add: strip_data_prefix_def)
  with assms blank show False by (simp add: js_def)
qed

text \<open>
  What the loops do with a sentinel line they reach.  Let \<open>message\<close> be a complete
  line of the buffer (it holds no line feed and is followed by one) whose content,
  after the optional \<^verbatim>\<open>data: \<close> prefix is removed and the rest trimmed, is the
  literal \<^verbatim>\<open>[DONE]\<close>.  With that line at the head of the buffer, the loop of the
  OpenAI-compatible handler writes exactly \<^verbatim>\<open>data: [DONE]\n\n\<close> for it and goes on
  with the rest of the buffer; the loop of the local-runner handler writes nothing for
  it and goes on with the rest of the buffer.
\<close>

lemma sentinel_line_reached:
  assumes line: "10 \<notin> set message"
    and sentinel: "trim (strip_data_prefix message) = js ''[DONE]''"
  shows "chatCompletions_messages model (message @ 10 # rest) =
           apsnd ((#) (WriteText (js ''data: [DONE]\<newline>\<newline>'')))
             (chatCompletions_messages model rest)
         \<and> chat_messages chosen headersSent (message @ 10 # rest) =
           chat_messages chosen headersSent rest"
proof -
  from line have at: "indexOf 10 (message @ 10 # rest) = Some (length message)"
    by (rule indexOf_append)
  from sentinel have nonblank: "trim message \<noteq> []" by (rule sentinel_line_not_blank)
  have "chatCompletions_messages model (message @ 10 # rest) =
          apsnd ((#) (WriteText (js ''data: [DONE]\<newline>\<newline>'')))
            (chatCompletions_messages model rest)"
    by (subst chatCompletions_messages.simps) (simp add: at nonblank sentinel)
  moreover have "chat_messages chosen headersSent (message @ 10 # rest) =
          chat_messages chosen headersSent rest"
    by (subst chat_messages.simps) (simp add: at nonblank sentinel)
  ultimately show ?thesis by simp
qed

section \<open>The terminal frame\<close>

lemma chatCompletions_messages_no_end:
  "EndResponse \<notin> set (snd (chatCompletions_messages model buffer))"
proof (induction model buffer rule: chatCompletions_messages.induct)
  case (1 model buffer)
  show ?case
    by (subst chatCompletions_messages.simps)
       (use 1 in \<open>auto split: option.splits sum.splits simp: Let_def\<close>)
qed

lemma chat_streamResponse_not_done:
  "chat_streamResponse chosen v = Inr fr \<Longrightarrow> \<not> line_done fr"
  by (auto simp: chat_streamResponse_def bind_eq_Inr)

lemma chat_messages_effects:
  "EndResponse \<notin> set (snd (snd (chat_messages chosen headersSent buffer)))
   \<and> (\<forall>fr. WriteLine fr \<in> set (snd (snd (chat_messages chosen headersSent buffer)))
         \<longrightarrow> \<not> line_done fr)"
  (is "?P chosen headersSent buffer")
proof (induction chosen headersSent buffer rule: chat_messages.induct)
  case (1 chosen headersSent buffer)
  show ?case
  proof (cases "indexOf 10 buffer")
    case None
    then show ?thesis by (subst (1 2) chat_messages.simps) simp
  next
    case (Some messageEnd)
    let ?message = "take messageEnd buffer"
    let ?buffer1 = "drop (Suc messageEnd) buffer"
    show ?thesis
    proof (cases "trim ?message = []")
      case True
      with Some "1.IH"(1) [OF Some refl refl True] show ?thesis
        by (subst (1 2) chat_messages.simps) simp
    next
      case nonblank: False
      show ?thesis
      proof (cases "trim (strip_data_prefix ?message) = js ''[DONE]''")
        case True
        with Some nonblank "1.IH"(2) [OF Some refl refl nonblank True] show ?thesis
          by (subst (1 2) chat_messages.simps) simp
      next
        case data: False
        show ?thesis
        proof (cases "bind (JSON_parse (strip_data_prefix ?message)) (chat_streamResponse chosen)")
          case (Inl e)
          with Some nonblank data show ?thesis
            by (subst (1 2) chat_messages.simps) simp
        next
          case (Inr frame)
          then have nd: "\<not> line_done frame"
            by (auto simp: bind_eq_Inr dest: chat_streamResponse_not_done)
          show ?thesis
          proof (cases headersSent)
            case True
            with Some nonblank data Inr show ?thesis
              by (subst (1 2) chat_messages.simps) simp
          next
            case False
            with Some nonblank data Inr nd
              "1.IH"(3) [OF Some refl refl nonblank data Inr False]
            show ?thesis
              by (subst (1 2) chat_messages.simps) (auto simp: emitted_def Let_def)
          qed
        qed
      qed
    qed
  qed
qed

lemma chatCompletions_events_end:
  "\<exists>pre. chatCompletions_events model buffer chunks = pre @ chatCompletions_on_end model
         \<and> EndResponse \<notin> set pre"
proof (induction chunks arbitrary: buffer)
  case Nil
  then show ?case by simp
next
  case (Cons chunk chunks)
  from Cons.IH [of "fst (chatCompletions_on_data model buffer chunk)"]
  obtain pre where
    pre: "chatCompletions_events model (fst (chatCompletions_on_data model buffer chunk)) chunks
            = pre @ chatCompletions_on_end model"
    and no_end: "EndResponse \<notin> set pre"
    by blast
  have "EndResponse \<notin> set (snd (chatCompletions_on_data model buffer chunk) @ pre)"
    using no_end chatCompletions_messages_no_end [of model "buffer @ toString chunk"]
    by (simp add: chatCompletions_on_data_def)
  with pre show ?case by (intro exI [of _ "snd (chatCompletions_on_data model buffer chunk) @ pre"]) simp
qed

lemma chat_events_end:
  "\<exists>pre. chat_events chosen random headersSent buffer chunks = pre @ chat_on_end chosen random
         \<and> EndResponse \<notin> set pre \<and> (\<forall>fr. WriteLine fr \<in> set pre \<longrightarrow> \<not> line_done fr)"
proof (induction chunks arbitrary: headersSent buffer)
  case Nil
  then show ?case by simp
next
  case (Cons chunk chunks)
  let ?r = "chat_on_data chosen headersSent buffer chunk"
  from Cons.IH [of "fst (snd ?r)" "fst ?r"]
  obtain pre where
    pre: "chat_events chosen random (fst (snd ?r)) (fst ?r) chunks = pre @ chat_on_end chosen random"
    and no_end: "EndResponse \<notin> set pre"
    and not_done: "\<forall>fr. WriteLine fr \<in> set pre \<longrightarrow> \<not> line_done fr"
    by blast
  have "EndResponse \<notin> set (snd (snd ?r) @ pre)
        \<and> (\<forall>fr. WriteLine fr \<in> set (snd (snd ?r) @ pre) \<longrightarrow> \<not> line_done fr)"
    using no_end not_done chat_messages_effects [of chosen headersSent "buffer @ toString chunk"]
    by (auto simp: chat_on_data_def)
  with pre show ?case by (intro exI [of _ "snd (snd ?r) @ pre"]) simp
qed

text \<open>
  Claim C5.  When the upstream stream ends, the OpenAI-compatible handler writes one
  frame with \<^verbatim>\<open>finish_reason: "stop"\<close> (fabricated id and creation time, matched_stop
  128009), then the line \<^verbatim>\<open>data: [DONE]\<close>, and ends the response; the local-runner
  handler writes one frame with \<^verbatim>\<open>done: true\<close>, \<^verbatim>\<open>done_reason: "stop"\<close> and six
  fabricated counters, each within the range of its random draw (a draw of
  \<^verbatim>\<open>Math.random()\<close> lies in \<open>[0, 1)\<close>), and ends the response.  In a whole run, over
  any chunks, these are the last effects: nothing before them ends the response, and on
  the local-runner surface no earlier frame carries \<^verbatim>\<open>done: true\<close>.
\<close>

theorem terminal_frame:
  assumes draws: "\<forall>k<6. 0 \<le> random k \<and> random k < 1"
  shows
    "chatCompletions_on_end model =
       [WriteChunk \<lparr>chunk_id = None,
                    chunk_model = js_or model (JStr (js ''meta-llama/llama-3.1-8b-instruct/fp-8'')),
                    chunk_role = JNull, chunk_content = JStr [],
                    chunk_finish_reason = JStr (js ''stop''),
                    chunk_matched_stop = JNum 128009\<rparr>,
        WriteText (js ''data: [DONE]\<newline>\<newline>''),
        EndResponse]
     \<and> (\<exists>pre. chatCompletions_events model buffer chunks = pre @ chatCompletions_on_end model
            \<and> EndResponse \<notin> set pre)
     \<and> (\<exists>frame t. chat_on_end chosen random = [WriteLine frame, EndResponse]
            \<and> line_done frame \<and> line_done_reason frame = Some (js ''stop'')
            \<and> line_content frame = JStr [] \<and> line_timing frame = Some t
            \<and> 0 \<le> total_duration t \<and> total_duration t < 20000000000
            \<and> 0 \<le> load_duration t \<and> load_duration t < 3000000000
            \<and> 10 \<le> prompt_eval_count t \<and> prompt_eval_count t < 60
            \<and> 0 \<le> prompt_eval_duration t \<and> prompt_eval_duration t < 500000000
            \<and> 100 \<le> eval_count t \<and> eval_count t < 1100
            \<and> 0 \<le> eval_duration t \<and> eval_duration t < 17000000000)
     \<and> (\<exists>pre. chat_events chosen random headersSent buffer chunks = pre @ chat_on_end chosen random
            \<and> EndResponse \<notin> set pre \<and> (\<forall>frame. WriteLine frame \<in> set pre \<longrightarrow> \<not> line_done frame))"
proof -
  have r: "0 \<le> random_int (random k) n \<and> random_int (random k) n < n" if "k < 6" "0 < n" for k n
    using draws that by (intro random_int_bounds) auto
  have local: "\<exists>frame t. chat_on_end chosen random = [WriteLine frame, EndResponse]
            \<and> line_done frame \<and> line_done_reason frame = Some (js ''stop'')
            \<and> line_content frame = JStr [] \<and> line_timing frame = Some t
            \<and> 0 \<le> total_duration t \<and> total_duration t < 20000000000
            \<and> 0 \<le> load_duration t \<and> load_duration t < 3000000000
            \<and> 10 \<le> prompt_eval_count t \<and> prompt_eval_count t < 60
            \<and> 0 \<le> prompt_eval_duration t \<and> prompt_eval_duration t < 500000000
            \<and> 100 \<le> eval_count t \<and> eval_count t < 1100
            \<and> 0 \<le> eval_duration t \<and> eval_duration t < 17000000000"
    using r [of 0 20000000000] r [of 1 3000000000] r [of 2 50] r [of 3 500000000]
      r [of 4 1000] r [of 5 17000000000]
    by (simp add: chat_on_end_def)
  show ?thesis
    using local chatCompletions_events_end [of model buffer chunks]
      chat_events_end [of chosen random headersSent buffer chunks]
    by (simp add: chatCompletions_on_end_def)
qed

theorem terminal_frame_witness:
  "(0::rat) \<le> 1 / 2 \<and> (1::rat) / 2 < 1
   \<and> chatCompletions_events (JStr (js ''m'')) [] [] =
       [WriteChunk \<lparr>chunk_id = None, chunk_model = JStr (js ''m''),
                    chunk_role = JNull, chunk_content = JStr [],
                    chunk_finish_reason = JStr (js ''stop''),
                    chunk_matched_stop = JNum 128009\<rparr>,
        WriteText (js ''data: [DONE]\<newline>\<newline>''),
        EndResponse]
   \<and> (\<exists>frame t. chat_on_end (JStr (js ''m'')) (\<lambda>k. 1 / 2) = [WriteLine frame, EndResponse]
          \<and> line_done frame \<and> line_timing frame = Some t \<and> total_duration t = 10000000000)"
  using terminal_frame [of "\<lambda>k. 1 / 2" "JStr (js ''m'')" "[]" "[]" "JStr (js ''m'')" False]
  by (simp add: chatCompletions_on_end_def chat_on_end_def random_int_def js_or_def js_def)

section \<open>The retry policy of chatCompletions\<close>

lemma chatCompletions_messages_no_request:
  "\<forall>e\<in>set (snd (chatCompletions_messages model buffer)). \<not> is_request e"
proof (induction model buffer rule: chatCompletions_messages.induct)
  case (1 model buffer)
  show ?case
    by (subst chatCompletions_messages.simps)
       (use 1 in \<open>auto split: option.splits sum.splits simp: Let_def is_request_def\<close>)
qed

lemma chatCompletions_events_no_request:
  "filter is_request (chatCompletions_events model buffer chunks) = []"
proof (induction chunks arbitrary: buffer)
  case Nil
  then show ?case by (simp add: chatCompletions_on_end_def is_request_def)
next
  case (Cons chunk chunks)
  have "filter is_request (snd (chatCompletions_on_data model buffer chunk)) = []"
    using chatCompletions_messages_no_request [of model "buffer @ toString chunk"]
    by (simp add: chatCompletions_on_data_def filter_empty_conv)
  with Cons.IH show ?case by simp
qed

lemma chatCompletions_try_one_request:
  "length (filter is_request (fst (chatCompletions_try cfg answer chosen b))) \<le> 1"
  by (auto simp: chatCompletions_try_def Let_def is_request_def chatCompletions_events_no_request
           split: sum.splits outcome.splits)

lemma chatCompletions_retry_bound:
  "length (filter is_request (fst (chatCompletions_retry cfg upstream chosen b retryCount)))
     \<le> maxRetries - retryCount"
proof (induction cfg upstream chosen b retryCount rule: chatCompletions_retry.induct)
  case (1 cfg upstream chosen b retryCount)
  show ?case
  proof (cases "retryCount < maxRetries")
    case False
    then show ?thesis by (subst chatCompletions_retry.simps) simp
  next
    case True
    obtain es r where t: "chatCompletions_try cfg (upstream retryCount) chosen b = (es, r)"
      by (cases "chatCompletions_try cfg (upstream retryCount) chosen b")
    have one: "length (filter is_request es) \<le> 1"
      using chatCompletions_try_one_request [of cfg "upstream retryCount" chosen b] t by simp
    show ?thesis
    proof (cases "\<exists>err. r = Some err \<and> err = Rejected (Some 429) \<and> retryCount < maxRetries - 1")
      case False
      with True t one show ?thesis
        by (subst chatCompletions_retry.simps) (auto split: option.splits)
    next
      case again: True
      then obtain err where r: "r = Some err" and e: "err = Rejected (Some 429)"
        and c: "retryCount < maxRetries - 1" by blast
      have "err = Rejected (Some 429) \<and> retryCount < maxRetries - 1" using e c by simp
      from "1.IH" [OF True t [symmetric] r this]
      have "length (filter is_request
              (fst (chatCompletions_retry cfg upstream chosen b (retryCount + 1))))
            \<le> maxRetries - (retryCount + 1)" .
      with True t one r e c show ?thesis
        by (subst chatCompletions_retry.simps) (simp add: is_request_def)
    qed
  qed
qed

lemma chatCompletions_retry_again:
  assumes "chatCompletions_try cfg (upstream retryCount) chosen b
             = ([Request request], Some (Rejected (Some 429)))"
    and "retryCount < 2"
  shows "chatCompletions_retry cfg upstream chosen b retryCount =
           apfst ((@) [Request request, LogRetry, Delay 5000])
             (chatCompletions_retry cfg upstream chosen b (Suc retryCount))"
  using assms by (subst chatCompletions_retry.simps) (simp add: maxRetries_def)

lemma chatCompletions_retry_stop:
  assumes "chatCompletions_try cfg (upstream retryCount) chosen b = (es, r)"
    and "retryCount < 3"
    and "r \<noteq> Some (Rejected (Some 429)) \<or> retryCount = 2"
  shows "chatCompletions_retry cfg upstream chosen b retryCount = (es, r)"
  using assms by (subst chatCompletions_retry.simps) (auto simp: maxRetries_def split: option.splits)

lemma chatCompletions_retry_unroll:
  assumes limited: "\<forall>i<k. chatCompletions_try cfg (upstream i) chosen b
                       = ([Request request], Some (Rejected (Some 429)))"
    and k: "k < 3"
  shows "chatCompletions_retry cfg upstream chosen b 0 =
           apfst ((@) (retried request k)) (chatCompletions_retry cfg upstream chosen b k)"
proof -
  from k consider "k = 0" | "k = 1" | "k = 2" by linarith
  then show ?thesis
  proof cases
    case 1
    then show ?thesis by (simp add: retried_def apfst_def map_prod_def split_beta)
  next
    case 2
    with limited have "chatCompletions_try cfg (upstream 0) chosen b
                       = ([Request request], Some (Rejected (Some 429)))" by simp
    then have "chatCompletions_retry cfg upstream chosen b 0 =
           apfst ((@) [Request request, LogRetry, Delay 5000])
             (chatCompletions_retry cfg upstream chosen b (Suc 0))"
      by (intro chatCompletions_retry_again) simp_all
    with 2 show ?thesis
      by (simp add: retried_def)
  next
    case 3
    with limited have a0: "chatCompletions_try cfg (upstream 0) chosen b
                       = ([Request request], Some (Rejected (Some 429)))"
      and a1: "chatCompletions_try cfg (upstream 1) chosen b
                       = ([Request request], Some (Rejected (Some 429)))" by simp_all
    from a0 have s0: "chatCompletions_retry cfg upstream chosen b 0 =
           apfst ((@) [Request request, LogRetry, Delay 5000])
             (chatCompletions_retry cfg upstream chosen b (Suc 0))"
      by (intro chatCompletions_retry_again) simp_all
    from a1 have s1: "chatCompletions_retry cfg upstream chosen b (Suc 0) =
           apfst ((@) [Request request, LogRetry, Delay 5000])
             (chatCompletions_retry cfg upstream chosen b (Suc (Suc 0)))"
      by (intro chatCompletions_retry_again) simp_all
    from s0 s1 3 show ?thesis
      by (simp add: retried_def apfst_def map_prod_def split_beta numeral_2_eq_2)
  qed
qed

lemma chatCompletions_requests:
  "length (filter is_request (chatCompletions cfg upstream body)) \<le> 3"
proof (cases "destructure (JBool False) body")
  case (Inl e)
  then show ?thesis by (simp add: chatCompletions_def is_request_def)
next
  case (Inr b)
  obtain es r where
    t: "chatCompletions_retry cfg upstream (chosenModel cfg (body_model b)) b 0 = (es, r)"
    by (cases "chatCompletions_retry cfg upstream (chosenModel cfg (body_model b)) b 0")
  with chatCompletions_retry_bound [of cfg upstream "chosenModel cfg (body_model b)" b 0]
  have "length (filter is_request es) \<le> 3" by (simp add: maxRetries_def)
  with Inr t show ?thesis
    by (cases r) (simp_all add: chatCompletions_def is_request_def)
qed

text \<open>
  Claim C1.  Take a request whose body destructures, and let \<open>request\<close> be the
  upstream call it leads to.  Whatever the upstream does, at most three calls are
  made.  If the first \<open>k\<close> calls (\<open>k < 3\<close>) fail with HTTP 429, each of them is followed
  by a wait of 5000 ms and another call (\<open>retried request k\<close>), and then:
  a failure of call \<open>k\<close> that is not a 429, or a 429 on the third call (\<open>k = 2\<close>), is
  logged and answered with the 500 error at once, with no further wait or call;
  a successful call \<open>k\<close> delivers the upstream's answer (the JSON body with the chosen
  model, or the translated stream) and no error.  The body of a JSON answer is taken
  to be one that \<^verbatim>\<open>response.data.model = chosenModel\<close> can be assigned on
  (\<open>set_model\<close> succeeds: anything but \<^verbatim>\<open>null\<close>).
\<close>

theorem chatCompletions_retry_policy:
  assumes body: "destructure (JBool False) body = Inr b"
    and chosen: "chosen = chosenModel cfg (body_model b)"
    and wants: "wantsStream = js_and (body_stream b) (JBool (API_STYLE cfg \<noteq> Gemini))"
    and request: "makeChatRequest cfg chosen (body_messages b) wantsStream (body_otherParams b)
                    = Inr request"
    and k: "k < 3"
    and limited: "\<forall>i<k. upstream i = Rejects (Some 429)"
  shows
    "length (filter is_request (chatCompletions cfg upstream body)) \<le> 3
     \<and> (upstream k = Rejects st \<and> (st \<noteq> Some 429 \<or> k = 2) \<longrightarrow>
          chatCompletions cfg upstream body =
            retried request k
            @ [Request request, LogError (Rejected st), SendJson 500 server_error])
     \<and> (upstream k = Resolves data chunks \<and> \<not> truthy wantsStream
          \<and> set_model data chosen = Inr d \<longrightarrow>
          chatCompletions cfg upstream body =
            retried request k
            @ [Request request, SetHeader (js ''Content-Type'') (js ''application/json''),
               SendJson 200 d])
     \<and> (upstream k = Resolves data chunks \<and> truthy wantsStream \<longrightarrow>
          chatCompletions cfg upstream body =
            retried request k
            @ [Request request,
               SetHeader (js ''Content-Type'') (js ''text/event-stream''),
               SetHeader (js ''Cache-Control'') (js ''no-cache''),
               SetHeader (js ''Connection'') (js ''keep-alive'')]
            @ chatCompletions_events (body_model b) [] chunks)"
proof -
  have rejected: "chatCompletions_try cfg (Rejects s) chosen b
                    = ([Request request], Some (Rejected s))" for s
    using request wants by (simp add: chatCompletions_try_def)
  from limited rejected
  have "\<forall>i<k. chatCompletions_try cfg (upstream i) chosen b
                 = ([Request request], Some (Rejected (Some 429)))" by simp
  from chatCompletions_retry_unroll [OF this k]
  have unroll: "chatCompletions_retry cfg upstream chosen b 0 =
                  apfst ((@) (retried request k)) (chatCompletions_retry cfg upstream chosen b k)" .
  have stop: "chatCompletions cfg upstream body =
                retried request k @ (case r of None \<Rightarrow> es | Some err \<Rightarrow>
                                       es @ [LogError err, SendJson 500 server_error])"
    if "chatCompletions_try cfg (upstream k) chosen b = (es, r)"
      and "r \<noteq> Some (Rejected (Some 429)) \<or> k = 2" for es r
  proof -
    from chatCompletions_retry_stop [where upstream = upstream and retryCount = k, OF that(1) k that(2)] unroll
    have "chatCompletions_retry cfg upstream chosen b 0 = (retried request k @ es, r)"
      by simp
    with body chosen show ?thesis
      by (simp add: chatCompletions_def split: option.splits)
  qed
  have c2: "chatCompletions cfg upstream body =
              retried request k
              @ [Request request, LogError (Rejected st), SendJson 500 server_error]"
    if "upstream k = Rejects st" "st \<noteq> Some 429 \<or> k = 2"
    using stop [of "[Request request]" "Some (Rejected st)"] rejected [of st] that by auto
  have c3: "chatCompletions cfg upstream body =
              retried request k
              @ [Request request, SetHeader (js ''Content-Type'') (js ''application/json''),
                 SendJson 200 d]"
    if "upstream k = Resolves data chunks" "\<not> truthy wantsStream" "set_model data chosen = Inr d"
    using stop [of "[Request request, SetHeader (js ''Content-Type'') (js ''application/json''),
                     SendJson 200 d]" None] that request wants
    by (simp add: chatCompletions_try_def)
  have c4: "chatCompletions cfg upstream body =
              retried request k
              @ [Request request,
                 SetHeader (js ''Content-Type'') (js ''text/event-stream''),
                 SetHeader (js ''Cache-Control'') (js ''no-cache''),
                 SetHeader (js ''Connection'') (js ''keep-alive'')]
              @ chatCompletions_events (body_model b) [] chunks"
    if "upstream k = Resolves data chunks" "truthy wantsStream"
    using stop [of "[Request request,
                     SetHeader (js ''Content-Type'') (js ''text/event-stream''),
                     SetHeader (js ''Cache-Control'') (js ''no-cache''),
                     SetHeader (js ''Connection'') (js ''keep-alive'')]
                    @ chatCompletions_events (body_model b) [] chunks" None] that request wants
    by (simp add: chatCompletions_try_def)
  from chatCompletions_requests [of cfg upstream body] c2 c3 c4 show ?thesis by blast
qed

theorem chatCompletions_retry_policy_witness:
  "chatCompletions
     \<lparr>URL_HOST = js ''h'', API_KEY = js ''k'', DEFAULT_MODEL = [], API_STYLE = OpenAI,
        SUPPORTED_MODELS = []\<rparr>
     (\<lambda>i. if i < 2 then Rejects (Some 429) else Resolves (JObj []) [])
     (JObj [(js ''model'', JStr (js ''m'')), (js ''messages'', JArr [])])
   = [Request \<lparr>req_url = [Lit (js ''h''), Lit (js ''/chat/completions'')],
                req_payload = ChatCompletions
                  [(js ''model'', JStr (js ''m'')), (js ''messages'', JArr []),
                   (js ''stream'', JBool False), (js ''max_tokens'', JNum 3000)],
                req_streaming = False\<rparr>,
      LogRetry, Delay 5000,
      Request \<lparr>req_url = [Lit (js ''h''), Lit (js ''/chat/completions'')],
                req_payload = ChatCompletions
                  [(js ''model'', JStr (js ''m'')), (js ''messages'', JArr []),
                   (js ''stream'', JBool False), (js ''max_tokens'', JNum 3000)],
                req_streaming = False\<rparr>,
      LogRetry, Delay 5000,
      Request \<lparr>req_url = [Lit (js ''h''), Lit (js ''/chat/completions'')],
                req_payload = ChatCompletions
                  [(js ''model'', JStr (js ''m'')), (js ''messages'', JArr []),
                   (js ''stream'', JBool False), (js ''max_tokens'', JNum 3000)],
                req_streaming = False\<rparr>,
      SetHeader (js ''Content-Type'') (js ''application/json''),
      SendJson 200 (JObj [(js ''model'', JStr (js ''m''))])]"
proof -
  let ?cfg = "\<lparr>URL_HOST = js ''h'', API_KEY = js ''k'', DEFAULT_MODEL = [], API_STYLE = OpenAI,
                SUPPORTED_MODELS = []\<rparr>"
  let ?body = "JObj [(js ''model'', JStr (js ''m'')), (js ''messages'', JArr [])]"
  let ?b = "\<lparr>body_model = JStr (js ''m''), body_messages = JArr [], body_stream = JBool False,
              body_otherParams = []\<rparr>"
  let ?request = "\<lparr>req_url = [Lit (js ''h''), Lit (js ''/chat/completions'')],
                req_payload = ChatCompletions
                  [(js ''model'', JStr (js ''m'')), (js ''messages'', JArr []),
                   (js ''stream'', JBool False), (js ''max_tokens'', JNum 3000)],
                req_streaming = False\<rparr>"
  let ?upstream = "\<lambda>i::nat. if i < 2 then Rejects (Some 429) else Resolves (JObj []) []"
  have body: "destructure (JBool False) ?body = Inr ?b"
    by (simp add: destructure_def rest_props_def lookup_def js_eq_iff)
  have request: "makeChatRequest ?cfg (chosenModel ?cfg (body_model ?b)) (body_messages ?b)
                   (js_and (body_stream ?b) (JBool (API_STYLE ?cfg \<noteq> Gemini))) (body_otherParams ?b)
                 = Inr ?request"
    by (simp add: makeChatRequest_def chosenModel_def mapModel_def js_or_def js_and_def)
  have limited: "\<forall>i<2. ?upstream i = Rejects (Some 429)" by simp
  have k: "(2::nat) < 3" by simp
  from chatCompletions_retry_policy [OF body refl refl request k limited,
      of "Some 0" "JObj []" "[]" "JObj [(js ''model'', JStr (js ''m''))]"]
  show ?thesis
    by (simp add: retried_def js_and_def chosenModel_def mapModel_def js_or_def
          numeral_2_eq_2)
qed

section \<open>Chat requests under the content-generation style\<close>

text \<open>
  Claim C7.  Under the content-generation style:

  \<^item> whenever \<^verbatim>\<open>makeChatRequest\<close> reaches its upstream call, the request is not a
    streaming one, the messages are an array (or absent, which counts as the empty
    array), the contents of the payload are the messages remapped one by one as above,
    and the same request is built whatever the stream argument;

  \<^item> the call is reached for every array of messages none of which is \<^verbatim>\<open>null\<close> and
    every convertible model (the documented parameters, an array of message objects
    and a model name, are of this kind), at the \<^verbatim>\<open>:generateContent\<close> URL of the model;

  \<^item> the handler, whatever the \<^verbatim>\<open>stream\<close> of the body, makes this one call and no
    other: when the call is rejected that is all it does in this attempt, and when the
    call resolves it answers once, with \<^verbatim>\<open>res.json\<close>, the reply completed by the
    model (or throws, when the reply is \<^verbatim>\<open>null\<close> and the assignment of the model
    fails); it never goes into the stream translator.
\<close>

theorem gemini_chat_request:
  assumes style: "API_STYLE cfg = Gemini"
  shows
    "(makeChatRequest cfg model messages stream otherParams = Inr request \<longrightarrow>
        \<not> req_streaming request
        \<and> (\<exists>msgs. js_or messages (JArr []) = JArr msgs
              \<and> req_payload request =
                  GenerateContent (map remapped msgs)
                    (js_or (lookup otherParams (js ''max_tokens'')) (JNum 2048)))
        \<and> makeChatRequest cfg model messages stream' otherParams = Inr request)
     \<and> ((\<forall>m\<in>set ms. m \<noteq> JNull \<and> m \<noteq> JUndefined) \<and> convertible model \<longrightarrow>
          makeChatRequest cfg model (JArr ms) stream otherParams =
            Inr \<lparr>req_url = [Lit (URL_HOST cfg), Lit (js ''/models/''), Interp model,
                             Lit (js '':generateContent'')],
                 req_payload = GenerateContent (map remapped ms)
                                 (js_or (lookup otherParams (js ''max_tokens'')) (JNum 2048)),
                 req_streaming = False\<rparr>)
     \<and> (makeChatRequest cfg chosen (body_messages b) stream (body_otherParams b) = Inr call \<longrightarrow>
          chatCompletions_try cfg (Rejects st) chosen b = ([Request call], Some (Rejected st))
          \<and> (set_model data chosen = Inr d \<longrightarrow>
                chatCompletions_try cfg (Resolves data chunks) chosen b =
                  ([Request call, SetHeader (js ''Content-Type'') (js ''application/json''),
                    SendJson 200 d], None))
          \<and> (set_model data chosen = Inl e \<longrightarrow>
                chatCompletions_try cfg (Resolves data chunks) chosen b =
                  ([Request call, SetHeader (js ''Content-Type'') (js ''application/json'')],
                   Some (Thrown e))))"
proof -
  have ignored: "makeChatRequest cfg model messages s otherParams =
                 makeChatRequest cfg model messages s' otherParams" for s s' model messages otherParams
    using style by (simp add: makeChatRequest_def)
  have built: "\<not> req_streaming request
        \<and> (\<exists>msgs. js_or messages (JArr []) = JArr msgs
              \<and> req_payload request =
                  GenerateContent (map remapped msgs)
                    (js_or (lookup otherParams (js ''max_tokens'')) (JNum 2048)))"
    if r: "makeChatRequest cfg model messages stream otherParams = Inr request"
  proof -
    from r style obtain contents where
      contents: "gemini_contents messages = Inr contents"
      and request: "request =
         \<lparr>req_url = [Lit (URL_HOST cfg), Lit (js ''/models/''), Interp model,
                     Lit (js '':generateContent'')],
          req_payload = GenerateContent contents
                          (js_or (lookup otherParams (js ''max_tokens'')) (JNum 2048)),
          req_streaming = False\<rparr>"
      by (auto simp: makeChatRequest_def bind_eq_Inr split: if_splits)
    from contents obtain msgs where msgs: "js_or messages (JArr []) = JArr msgs"
      and mapped: "mapM gemini_content msgs = Inr contents"
      by (auto simp: gemini_contents_def split: jsval.splits)
    from mapped have "contents = map remapped msgs" by (rule mapM_gemini_content)
    with request msgs show ?thesis by simp
  qed
  have reached: "makeChatRequest cfg model (JArr ms) stream otherParams =
            Inr \<lparr>req_url = [Lit (URL_HOST cfg), Lit (js ''/models/''), Interp model,
                             Lit (js '':generateContent'')],
                 req_payload = GenerateContent (map remapped ms)
                                 (js_or (lookup otherParams (js ''max_tokens'')) (JNum 2048)),
                 req_streaming = False\<rparr>"
    if objects: "\<forall>m\<in>set ms. m \<noteq> JNull \<and> m \<noteq> JUndefined" and model: "convertible model"
  proof -
    from objects have "mapM gemini_content ms = Inr (map remapped ms)"
      by (intro mapM_map) (simp add: gemini_content_remapped)
    with style model show ?thesis
      by (simp add: makeChatRequest_def gemini_contents_def js_or_def)
  qed
  have falsy: "\<not> truthy (js_and s (JBool (API_STYLE cfg \<noteq> Gemini)))" for s
    using style by (simp add: js_and_def)
  have handler:
    "chatCompletions_try cfg (Rejects st) chosen b = ([Request call], Some (Rejected st))
     \<and> (set_model data chosen = Inr d \<longrightarrow>
           chatCompletions_try cfg (Resolves data chunks) chosen b =
             ([Request call, SetHeader (js ''Content-Type'') (js ''application/json''),
               SendJson 200 d], None))
     \<and> (set_model data chosen = Inl e \<longrightarrow>
           chatCompletions_try cfg (Resolves data chunks) chosen b =
             ([Request call, SetHeader (js ''Content-Type'') (js ''application/json'')],
              Some (Thrown e)))"
    if c: "makeChatRequest cfg chosen (body_messages b) stream (body_otherParams b) = Inr call"
  proof -
    from c ignored [of chosen "body_messages b"
                       "js_and (body_stream b) (JBool (API_STYLE cfg \<noteq> Gemini))"
                       "body_otherParams b" stream]
    have "makeChatRequest cfg chosen (body_messages b)
            (js_and (body_stream b) (JBool (API_STYLE cfg \<noteq> Gemini))) (body_otherParams b)
          = Inr call" by simp
    with falsy [of "body_stream b"] show ?thesis
      by (simp add: chatCompletions_try_def Let_def)
  qed
  from built ignored [of model messages stream' otherParams stream] reached handler
  show ?thesis by simp
qed

theorem gemini_chat_request_witness:
  "API_STYLE \<lparr>URL_HOST = js ''g'', API_KEY = js ''k'', DEFAULT_MODEL = [], API_STYLE = Gemini,
                SUPPORTED_MODELS = []\<rparr> = Gemini
   \<and> convertible (JStr (js ''m''))
   \<and> makeChatRequest
       \<lparr>URL_HOST = js ''g'', API_KEY = js ''k'', DEFAULT_MODEL = [], API_STYLE = Gemini,
          SUPPORTED_MODELS = []\<rparr>
       (JStr (js ''m''))
       (JArr [JObj [(js ''role'', JStr (js ''system'')), (js ''content'', JStr (js ''be brief''))],
              JObj [(js ''role'', JStr (js ''user'')), (js ''content'', JArr [JNum 1])]])
       (JBool True) []
     = Inr \<lparr>req_url = [Lit (js ''g''), Lit (js ''/models/''), Interp (JStr (js ''m'')),
                        Lit (js '':generateContent'')],
            req_payload = GenerateContent
              [\<lparr>entry_role = JStr (js ''user''), entry_parts = [Verbatim (js ''be brief'')]\<rparr>,
               \<lparr>entry_role = JStr (js ''user''), entry_parts = [Stringified (JArr [JNum 1])]\<rparr>]
              (JNum 2048),
            req_streaming = False\<rparr>
   \<and> chatCompletions_try
       \<lparr>URL_HOST = js ''g'', API_KEY = js ''k'', DEFAULT_MODEL = [], API_STYLE = Gemini,
          SUPPORTED_MODELS = []\<rparr>
       (Resolves (JObj [(js ''object'', JStr (js ''chat.completion''))]) [])
       (JStr (js ''m''))
       \<lparr>body_model = JStr (js ''m''),
          body_messages =
            JArr [JObj [(js ''role'', JStr (js ''system'')), (js ''content'', JStr (js ''be brief''))],
                  JObj [(js ''role'', JStr (js ''user'')), (js ''content'', JArr [JNum 1])]],
          body_stream = JBool True, body_otherParams = []\<rparr>
     = ([Request
          \<lparr>req_url = [Lit (js ''g''), Lit (js ''/models/''), Interp (JStr (js ''m'')),
                       Lit (js '':generateContent'')],
             req_payload = GenerateContent
               [\<lparr>entry_role = JStr (js ''user''), entry_parts = [Verbatim (js ''be brief'')]\<rparr>,
                \<lparr>entry_role = JStr (js ''user''), entry_parts = [Stringified (JArr [JNum 1])]\<rparr>]
               (JNum 2048),
             req_streaming = False\<rparr>,
         SetHeader (js ''Content-Type'') (js ''application/json''),
         SendJson 200 (JObj [(js ''object'', JStr (js ''chat.completion'')),
                             (js ''model'', JStr (js ''m''))])],
        None)"
proof -
  let ?cfg = "\<lparr>URL_HOST = js ''g'', API_KEY = js ''k'', DEFAULT_MODEL = [], API_STYLE = Gemini,
                 SUPPORTED_MODELS = []\<rparr>"
  let ?ms = "[JObj [(js ''role'', JStr (js ''system'')), (js ''content'', JStr (js ''be brief''))],
              JObj [(js ''role'', JStr (js ''user'')), (js ''content'', JArr [JNum 1])]]"
  let ?b = "\<lparr>body_model = JStr (js ''m''), body_messages = JArr ?ms,
              body_stream = JBool True, body_otherParams = []\<rparr>"
  let ?call = "\<lparr>req_url = [Lit (js ''g''), Lit (js ''/models/''), Interp (JStr (js ''m'')),
                            Lit (js '':generateContent'')],
                 req_payload = GenerateContent
                   [\<lparr>entry_role = JStr (js ''user''), entry_parts = [Verbatim (js ''be brief'')]\<rparr>,
                    \<lparr>entry_role = JStr (js ''user''), entry_parts = [Stringified (JArr [JNum 1])]\<rparr>]
                   (JNum 2048),
                 req_streaming = False\<rparr>"
  have style: "API_STYLE ?cfg = Gemini" by simp
  have request: "makeChatRequest ?cfg (JStr (js ''m'')) (JArr ?ms) (JBool True) [] = Inr ?call"
    using gemini_chat_request [OF style, where model = "JStr (js ''m'')" and ms = ?ms
        and stream = "JBool True" and otherParams = "[]" and messages = JNull and request = ?call
        and chosen = JNull and b = ?b and call = ?call]
    by (simp add: remapped_def lookup_def js_or_def js_eq_iff)
  have "chatCompletions_try ?cfg
          (Resolves (JObj [(js ''object'', JStr (js ''chat.completion''))]) [])
          (JStr (js ''m'')) ?b
        = ([Request ?call, SetHeader (js ''Content-Type'') (js ''application/json''),
            SendJson 200 (JObj [(js ''object'', JStr (js ''chat.completion'')),
                                (js ''model'', JStr (js ''m''))])], None)"
    using gemini_chat_request [OF style, where chosen = "JStr (js ''m'')" and b = ?b
        and stream = "JBool True" and call = ?call
        and data = "JObj [(js ''object'', JStr (js ''chat.completion''))]"
        and d = "JObj [(js ''object'', JStr (js ''chat.completion'')), (js ''model'', JStr (js ''m''))]"
        and chunks = "[]" and model = JNull and messages = JNull and otherParams = "[]"
        and request = ?call and ms = "[]"]
      request
    by simp
  with style request show ?thesis by simp
qed

section \<open>Validation on the OpenAI-compatible embeddings surface\<close>

text \<open>
  Claim C8, as stated, fails on a body that has both fields: with
  \<^verbatim>\<open>{"model": "m", "input": ""}\<close> the test \<^verbatim>\<open>!input\<close> holds, the handler answers 400
  and makes no upstream call.
\<close>

theorem embeddings_empty_input_rejected:
  \<open>lookup [(js ''model'', JStr (js ''m'')), (js ''input'', JStr [])] (js ''model'') = JStr (js ''m'')
   \<and> lookup [(js ''model'', JStr (js ''m'')), (js ''input'', JStr [])] (js ''input'') = JStr []
   \<and> embeddings
        \<lparr>URL_HOST = js ''h'', API_KEY = js ''k'', DEFAULT_MODEL = [], API_STYLE = OpenAI,
           SUPPORTED_MODELS = []\<rparr>
        (Resolves (JObj []) [])
        (JObj [(js ''model'', JStr (js ''m'')), (js ''input'', JStr [])])
      = [SendJson 400 (invalid_request_error (js ''Missing required parameter: "input"''))]\<close>
  by (simp add: embeddings_def parseBodyIfString_def lookup_def js_eq_iff js_Nil_iff)

text \<open>
  Claim C8, amended.  For every request whose body (a string body is parsed as JSON
  first) is not \<^verbatim>\<open>null\<close>: when \<^verbatim>\<open>model\<close> is absent or falsy, or \<^verbatim>\<open>input\<close> is, the
  handler's only effect is the 400 answer whose \<^verbatim>\<open>error.type\<close> is
  \<^verbatim>\<open>invalid_request_error\<close>, so no upstream call is made.  When both are truthy and
  the request is sendable, the first effect is the upstream embeddings call that
  \<^verbatim>\<open>makeEmbeddingsRequest\<close> builds from that model and input.  When both are truthy
  and the request is not sendable, the TypeError is logged and answered with the 500
  error, and no upstream call is made.
\<close>

theorem embeddings_validation:
  assumes parsed: "parseBodyIfString reqBody = body"
    and not_null: "body \<noteq> JNull" "body \<noteq> JUndefined"
  shows
    \<open>(\<not> truthy (opt_get body (js ''model'')) \<longrightarrow>
        embeddings cfg answer reqBody =
          [SendJson 400 (invalid_request_error (js ''Missing required parameter: "model"''))])
     \<and> (truthy (opt_get body (js ''model'')) \<and> \<not> truthy (opt_get body (js ''input'')) \<longrightarrow>
        embeddings cfg answer reqBody =
          [SendJson 400 (invalid_request_error (js ''Missing required parameter: "input"''))])
     \<and> (truthy (opt_get body (js ''model'')) \<and> truthy (opt_get body (js ''input''))
        \<and> sendable cfg (opt_get body (js ''model'')) (opt_get body (js ''input'')) \<longrightarrow>
        (\<exists>request rest.
           makeEmbeddingsRequest cfg (opt_get body (js ''model'')) (opt_get body (js ''input''))
             (rest_props [js ''model'', js ''input''] body) = Inr request
           \<and> embeddings cfg answer reqBody = Request request # rest))
     \<and> (truthy (opt_get body (js ''model'')) \<and> truthy (opt_get body (js ''input''))
        \<and> \<not> sendable cfg (opt_get body (js ''model'')) (opt_get body (js ''input'')) \<longrightarrow>
        embeddings cfg answer reqBody =
          [LogError (Thrown TypeError), LogError (Thrown TypeError),
           SendJson 500 embeddings_server_error])
     \<and> opt_get (opt_get (invalid_request_error message) (js ''error'')) (js ''type'')
         = JStr (js ''invalid_request_error'')\<close>
proof -
  let ?m = "opt_get body (js ''model'')"
  let ?i = "opt_get body (js ''input'')"
  have g: "get body k = Inr (opt_get body k)" for k
    using not_null by (cases body) simp_all
  have missing_model: \<open>embeddings cfg answer reqBody =
          [SendJson 400 (invalid_request_error (js ''Missing required parameter: "model"''))]\<close>
    if "\<not> truthy ?m"
    using that parsed g by (simp add: embeddings_def)
  have missing_input: \<open>embeddings cfg answer reqBody =
          [SendJson 400 (invalid_request_error (js ''Missing required parameter: "input"''))]\<close>
    if "truthy ?m" "\<not> truthy ?i"
    using that parsed g by (simp add: embeddings_def)
  have called: "\<exists>request rest.
           makeEmbeddingsRequest cfg ?m ?i (rest_props [js ''model'', js ''input''] body) = Inr request
           \<and> embeddings cfg answer reqBody = Request request # rest"
    if t: "truthy ?m" "truthy ?i" and s: "sendable cfg ?m ?i"
  proof -
    from makeEmbeddingsRequest_sendable [OF s] obtain request where
      "makeEmbeddingsRequest cfg ?m ?i (rest_props [js ''model'', js ''input''] body) = Inr request"
      by blast
    with t parsed g show ?thesis by (simp add: embeddings_def)
  qed
  have thrown: "embeddings cfg answer reqBody =
          [LogError (Thrown TypeError), LogError (Thrown TypeError),
           SendJson 500 embeddings_server_error]"
    if t: "truthy ?m" "truthy ?i" and s: "\<not> sendable cfg ?m ?i"
    using t parsed g
      makeEmbeddingsRequest_not_sendable [OF s, of "rest_props [js ''model'', js ''input''] body"]
    by (simp add: embeddings_def)
  have "opt_get (opt_get (invalid_request_error message) (js ''error'')) (js ''type'')
         = JStr (js ''invalid_request_error'')"
    by (simp add: invalid_request_error_def lookup_def js_eq_iff)
  with missing_model missing_input called thrown show ?thesis by blast
qed

theorem embeddings_validation_witness:
  \<open>parseBodyIfString (JStr (js ''{"model":"m","input":"hello"}''))
     = JObj [(js ''model'', JStr (js ''m'')), (js ''input'', JStr (js ''hello''))]
   \<and> sendable \<lparr>URL_HOST = js ''h'', API_KEY = js ''k'', DEFAULT_MODEL = [], API_STYLE = OpenAI,
                 SUPPORTED_MODELS = []\<rparr> (JStr (js ''m'')) (JStr (js ''hello''))
   \<and> (\<exists>rest. embeddings
          \<lparr>URL_HOST = js ''h'', API_KEY = js ''k'', DEFAULT_MODEL = [], API_STYLE = OpenAI,
             SUPPORTED_MODELS = []\<rparr>
          (Rejects None) (JStr (js ''{"model":"m","input":"hello"}''))
        = Request \<lparr>req_url = [Lit (js ''h''), Lit (js ''/embeddings'')],
                     req_payload = Embeddings (JStr (js ''m'')) (AsGiven (JStr (js ''hello''))) [],
                     req_streaming = False\<rparr> # rest)
   \<and> embeddings
          \<lparr>URL_HOST = js ''h'', API_KEY = js ''k'', DEFAULT_MODEL = [], API_STYLE = OpenAI,
             SUPPORTED_MODELS = []\<rparr>
          (Rejects None) (JObj [(js ''input'', JStr (js ''hello''))])
        = [SendJson 400 (invalid_request_error (js ''Missing required parameter: "model"''))]
   \<and> \<not> sendable \<lparr>URL_HOST = js ''h'', API_KEY = js ''k'', DEFAULT_MODEL = [], API_STYLE = OpenAI,
                   SUPPORTED_MODELS = []\<rparr> (JStr (js ''m'')) (JObj [(js ''toString'', JNum 1)])
   \<and> embeddings
          \<lparr>URL_HOST = js ''h'', API_KEY = js ''k'', DEFAULT_MODEL = [], API_STYLE = OpenAI,
             SUPPORTED_MODELS = []\<rparr>
          (Rejects None)
          (JObj [(js ''model'', JStr (js ''m'')), (js ''input'', JObj [(js ''toString'', JNum 1)])])
        = [LogError (Thrown TypeError), LogError (Thrown TypeError),
           SendJson 500 embeddings_server_error]\<close>
proof -
  let ?cfg = "\<lparr>URL_HOST = js ''h'', API_KEY = js ''k'', DEFAULT_MODEL = [], API_STYLE = OpenAI,
                 SUPPORTED_MODELS = []\<rparr>"
  have p: \<open>parseBodyIfString (JStr (js ''{"model":"m","input":"hello"}''))
     = JObj [(js ''model'', JStr (js ''m'')), (js ''input'', JStr (js ''hello''))]\<close>
    by (simp add: parseBodyIfString_def JSON_parse_def js_def is_digit_def)
  have q: "parseBodyIfString (JObj [(js ''input'', JStr (js ''hello''))])
             = JObj [(js ''input'', JStr (js ''hello''))]"
    by (simp add: parseBodyIfString_def)
  have r: "parseBodyIfString
             (JObj [(js ''model'', JStr (js ''m'')), (js ''input'', JObj [(js ''toString'', JNum 1)])])
             = JObj [(js ''model'', JStr (js ''m'')), (js ''input'', JObj [(js ''toString'', JNum 1)])]"
    by (simp add: parseBodyIfString_def)
  have s1: "sendable ?cfg (JStr (js ''m'')) (JStr (js ''hello''))"
    by (simp add: sendable_def)
  have s2: "\<not> sendable ?cfg (JStr (js ''m'')) (JObj [(js ''toString'', JNum 1)])"
    by (simp add: sendable_def is_array_def)
  from embeddings_validation [OF p, of ?cfg "Rejects None" "[]"]
    embeddings_validation [OF q, of ?cfg "Rejects None" "[]"]
    embeddings_validation [OF r, of ?cfg "Rejects None" "[]"] p s1 s2
  show ?thesis
    by (simp add: lookup_def js_eq_iff js_Nil_iff makeEmbeddingsRequest_def rest_props_def)
qed

text \<open>
  A number of the body is tested as the binary64 value of its literal: an input
  \<^verbatim>\<open>1e-400\<close> in a string body is the number 0, and the answer is the 400 for the
  missing input.
\<close>

lemma embeddings_underflowing_input_rejected:
  \<open>embeddings
        \<lparr>URL_HOST = js ''h'', API_KEY = js ''k'', DEFAULT_MODEL = [], API_STYLE = OpenAI,
           SUPPORTED_MODELS = []\<rparr>
        (Resolves (JObj []) [])
        (JStr (js ''{"model":"m","input":1e-400}''))
      = [SendJson 400 (invalid_request_error (js ''Missing required parameter: "input"''))]\<close>
  by (simp add: embeddings_def parseBodyIfString_def lookup_def JSON_parse_def js_def
        is_digit_def is_numch_def parse_number_def digits_val_def binary64_def
        round_half_even_def Let_def)

section \<open>The default model of the local-runner embedding endpoints\<close>

lemma parseRequestBody_truthy: "truthy (parseRequestBody reqBody)"
  by (simp add: parseRequestBody_def js_or_def)

lemma default_model_truthy: "truthy (js_or m (JStr (js ''all-minilm'')))"
  by (simp add: js_or_def js_Nil_iff)

text \<open>
  Claim C10.  On \<^verbatim>\<open>/api/embeddings\<close> the answer is never the 400 for a missing model:
  \<^verbatim>\<open>body.model || 'all-minilm'\<close> is truthy before the test \<^verbatim>\<open>!model\<close> is made
  (\<^verbatim>\<open>/api/embed\<close> has no such test).  When the body has no model and has a prompt or
  input text (a truthy \<^verbatim>\<open>input\<close>, or else a truthy \<^verbatim>\<open>prompt\<close>, that is an array or
  convertible, as every string is), the first effect of both handlers is the upstream
  embeddings call that \<^verbatim>\<open>makeEmbeddingsRequest\<close> builds for the model \<^verbatim>\<open>all-minilm\<close>
  and that text.
\<close>

theorem ollama_embeddings_default_model:
  assumes body: "body = parseRequestBody reqBody"
    and embedded: "textToEmbed = (if truthy (opt_get body (js ''input'')) then opt_get body (js ''input'')
                              else opt_get body (js ''prompt''))"
  shows
    \<open>ollama_embeddings cfg answer reqBody \<noteq>
        [SendJson 400 (JObj [(js ''error'', JStr (js ''Missing required parameter: "model"''))])]
     \<and> (\<not> truthy (opt_get body (js ''model'')) \<and> truthy textToEmbed
        \<and> (is_array textToEmbed \<or> convertible textToEmbed) \<longrightarrow>
          (\<exists>request.
             makeEmbeddingsRequest cfg (JStr (js ''all-minilm'')) textToEmbed
               (rest_props [js ''model'', js ''prompt'', js ''input''] body) = Inr request
             \<and> (\<exists>rest. ollama_embeddings cfg answer reqBody = Request request # rest)
             \<and> (\<exists>rest. ollama_embed cfg answer reqBody = Request request # rest)))\<close>
proof -
  have g: "get body k = Inr (opt_get body k)" for k
    using body parseRequestBody_truthy [of reqBody] by (simp add: get_truthy)
  let ?m = "opt_get body (js ''model'')"
  let ?p = "opt_get body (js ''prompt'')"
  let ?i = "opt_get body (js ''input'')"
  let ?other = "rest_props [js ''model'', js ''prompt'', js ''input''] body"
  have t: "js_or (js_or (js_or ?i ?p) (js_or ?p ?i)) (JStr []) =
             (if truthy textToEmbed then textToEmbed else JStr [])"
    using embedded by (auto simp: js_or_def)
  have unreachable: \<open>ollama_embeddings cfg answer reqBody \<noteq>
        [SendJson 400 (JObj [(js ''error'', JStr (js ''Missing required parameter: "model"''))])]\<close>
    using g t default_model_truthy [of ?m] body [symmetric]
    by (simp add: ollama_embeddings_def ollama_embed_call_def js_eq_iff split: sum.splits)
  have proceeds: "\<exists>request.
             makeEmbeddingsRequest cfg (JStr (js ''all-minilm'')) textToEmbed ?other = Inr request
             \<and> (\<exists>rest. ollama_embeddings cfg answer reqBody = Request request # rest)
             \<and> (\<exists>rest. ollama_embed cfg answer reqBody = Request request # rest)"
    if no_model: "\<not> truthy ?m" and nonempty: "truthy textToEmbed"
      and conv: "is_array textToEmbed \<or> convertible textToEmbed"
  proof -
    from conv have "sendable cfg (JStr (js ''all-minilm'')) textToEmbed"
      by (simp add: sendable_def)
    from makeEmbeddingsRequest_sendable [OF this] obtain request where
      request: "makeEmbeddingsRequest cfg (JStr (js ''all-minilm'')) textToEmbed ?other = Inr request"
      by blast
    have "\<exists>rest. ollama_embeddings cfg answer reqBody = Request request # rest"
      using no_model nonempty request g t body [symmetric]
      by (simp add: ollama_embeddings_def ollama_embed_call_def js_or_def js_Nil_iff)
    moreover have "\<exists>rest. ollama_embed cfg answer reqBody = Request request # rest"
      using no_model nonempty request g t body [symmetric]
      by (simp add: ollama_embed_def ollama_embed_call_def js_or_def js_Nil_iff)
    ultimately show ?thesis using request by blast
  qed
  from unreachable proceeds show ?thesis by blast
qed

theorem ollama_embeddings_default_model_witness:
  "parseRequestBody (JObj [(js ''prompt'', JStr (js ''hi''))]) = JObj [(js ''prompt'', JStr (js ''hi''))]
   \<and> convertible (JStr (js ''hi''))
   \<and> (\<exists>rest. ollama_embeddings
          \<lparr>URL_HOST = js ''h'', API_KEY = js ''k'', DEFAULT_MODEL = [], API_STYLE = OpenAI,
             SUPPORTED_MODELS = []\<rparr>
          (Rejects None) (JObj [(js ''prompt'', JStr (js ''hi''))])
        = Request \<lparr>req_url = [Lit (js ''h''), Lit (js ''/embeddings'')],
                     req_payload = Embeddings (JStr (js ''all-minilm'')) (AsGiven (JStr (js ''hi''))) [],
                     req_streaming = False\<rparr> # rest)
   \<and> (\<exists>rest. ollama_embed
          \<lparr>URL_HOST = js ''h'', API_KEY = js ''k'', DEFAULT_MODEL = [], API_STYLE = OpenAI,
             SUPPORTED_MODELS = []\<rparr>
          (Rejects None) (JObj [(js ''prompt'', JStr (js ''hi''))])
        = Request \<lparr>req_url = [Lit (js ''h''), Lit (js ''/embeddings'')],
                     req_payload = Embeddings (JStr (js ''all-minilm'')) (AsGiven (JStr (js ''hi''))) [],
                     req_streaming = False\<rparr> # rest)"
proof -
  have p: "JObj [(js ''prompt'', JStr (js ''hi''))]
             = parseRequestBody (JObj [(js ''prompt'', JStr (js ''hi''))])"
    by (simp add: parseRequestBody_def js_or_def)
  from ollama_embeddings_default_model [OF p refl, of
      "\<lparr>URL_HOST = js ''h'', API_KEY = js ''k'', DEFAULT_MODEL = [], API_STYLE = OpenAI,
             SUPPORTED_MODELS = []\<rparr>" "Rejects None"] p [symmetric]
  show ?thesis
    by (simp add: lookup_def js_eq_iff js_Nil_iff makeEmbeddingsRequest_def rest_props_def)
qed

section \<open>The synthesized model descriptors\<close>

lemma toString16_digit:
  assumes "0 \<le> v" "v < 16"
  shows "\<exists>c. toString16 v = [c] \<and> is_hex c"
proof -
  from assms have n: "nat v < 16" by simp
  then have "to_base16 (nat v) = [hex_digit (nat v)]"
    by (subst to_base16.simps) simp
  moreover from n have "is_hex (hex_digit (nat v))"
    by (simp add: hex_digit_def is_hex_def)
  ultimately show ?thesis using assms by (simp add: toString16_def)
qed

lemma concat_digits:
  assumes "\<forall>x\<in>set xs. \<exists>c. f x = [c] \<and> P c"
  shows "length (concat (map f xs)) = length xs \<and> (\<forall>c\<in>set (concat (map f xs)). P c)"
  using assms by (induction xs) auto

lemma next_year_not_leap: "leap_year y \<Longrightarrow> \<not> leap_year (y + 1)"
  unfolding leap_year_def by presburger

lemma setFullYear_next:
  assumes "valid_date d"
  shows "setFullYear d (date_year d + 1) =
           (if date_month d = 1 \<and> date_day d = 29
            then d\<lparr>date_year := date_year d + 1, date_month := 2, date_day := 1\<rparr>
            else d\<lparr>date_year := date_year d + 1\<rparr>)"
proof (cases "date_month d = 1")
  case False
  then have "days_in_month (date_year d + 1) (date_month d) = days_in_month (date_year d) (date_month d)"
    by (simp add: days_in_month_def)
  with assms False show ?thesis
    by (simp add: setFullYear_def valid_date_def)
next
  case feb: True
  show ?thesis
  proof (cases "date_day d = 29")
    case True
    with assms feb have "leap_year (date_year d)"
      by (auto simp: valid_date_def days_in_month_def split: if_splits)
    then have "\<not> leap_year (date_year d + 1)" by (rule next_year_not_leap)
    with feb True show ?thesis
      by (simp add: setFullYear_def days_in_month_def)
  next
    case False
    with assms feb have "date_day d \<le> 28"
      by (auto simp: valid_date_def days_in_month_def split: if_splits)
    with feb False show ?thesis
      by (simp add: setFullYear_def days_in_month_def)
  qed
qed

lemma createModelObjects_nth:
  "length (createModelObjects clock random t i names) = length names
   \<and> (\<forall>j<length names. createModelObjects clock random t i names ! j =
          createModelObject (clock (t + j)) random (i + 66 * j) (names ! j))"
proof (induction names arbitrary: t i)
  case Nil
  then show ?case by simp
next
  case (Cons name names)
  show ?case
  proof (intro conjI allI impI)
    show "length (createModelObjects clock random t i (name # names)) = length (name # names)"
      using Cons.IH [of "t + 1" "i + 66"] by simp
  next
    fix j assume "j < length (name # names)"
    then show "createModelObjects clock random t i (name # names) ! j =
          createModelObject (clock (t + j)) random (i + 66 * j) ((name # names) ! j)"
      using Cons.IH [of "t + 1" "i + 66"] by (cases j) (simp_all add: algebra_simps)
  qed
qed

text \<open>
  Claim C9.  With every draw of \<^verbatim>\<open>Math.random()\<close> in \<open>[0, 1)\<close> and the current date a
  date of the calendar, the descriptor of a model name has a size of at least
  100000000 and below 600000000, a digest of exactly 64 characters, each one of
  \<^verbatim>\<open>0-9a-f\<close>, a quantization level that is \<^verbatim>\<open>Q4_K_M\<close> or \<^verbatim>\<open>F16\<close>, and a
  \<^verbatim>\<open>modified_at\<close> that is the current date and time of day with the year advanced by
  one (on 29 February, which the next year does not have, \<^verbatim>\<open>setFullYear\<close> yields
  1 March).  A catalog read builds one descriptor per configured name, each from the
  clock reading and the 66 draws of its own call: nothing is kept from an earlier read.
\<close>

theorem createModelObject_descriptor:
  assumes draws: "\<forall>k. 0 \<le> random k \<and> random k < 1"
    and valid: "valid_date currentDate"
  shows
    "100000000 \<le> object_size (createModelObject currentDate random i name)
     \<and> object_size (createModelObject currentDate random i name) < 600000000
     \<and> length (object_digest (createModelObject currentDate random i name)) = 64
     \<and> (\<forall>c\<in>set (object_digest (createModelObject currentDate random i name)). is_hex c)
     \<and> object_modified_at (createModelObject currentDate random i name) =
         (if date_month currentDate = 1 \<and> date_day currentDate = 29
          then currentDate\<lparr>date_year := date_year currentDate + 1, date_month := 2, date_day := 1\<rparr>
          else currentDate\<lparr>date_year := date_year currentDate + 1\<rparr>)
     \<and> (object_quantization_level (createModelObject currentDate random i name) = js ''Q4_K_M''
         \<or> object_quantization_level (createModelObject currentDate random i name) = js ''F16'')
     \<and> length (getModelList cfg clock random t i) = length (SUPPORTED_MODELS cfg)
     \<and> (\<forall>j<length (SUPPORTED_MODELS cfg).
           getModelList cfg clock random t i ! j =
             createModelObject (clock (t + j)) random (i + 66 * j) (SUPPORTED_MODELS cfg ! j))"
proof -
  have size: "0 \<le> random_int (random (i + 64)) 500000000
              \<and> random_int (random (i + 64)) 500000000 < 500000000"
    using draws by (intro random_int_bounds) simp_all
  have "\<forall>k\<in>set [0..<64]. \<exists>c. toString16 (random_int (random (i + k)) 16) = [c] \<and> is_hex c"
  proof
    fix k assume "k \<in> set [0..<64]"
    have "0 \<le> random_int (random (i + k)) 16 \<and> random_int (random (i + k)) 16 < 16"
      using draws by (intro random_int_bounds) simp_all
    then show "\<exists>c. toString16 (random_int (random (i + k)) 16) = [c] \<and> is_hex c"
      by (intro toString16_digit) simp_all
  qed
  from concat_digits [OF this]
  have digest: "length (concat (map (\<lambda>k. toString16 (random_int (random (i + k)) 16)) [0..<64])) = 64
                \<and> (\<forall>c\<in>set (concat (map (\<lambda>k. toString16 (random_int (random (i + k)) 16)) [0..<64])).
                      is_hex c)"
    by simp
  from size digest setFullYear_next [OF valid]
    createModelObjects_nth [of clock random t i "SUPPORTED_MODELS cfg"]
  show ?thesis
    by (simp add: createModelObject_def getModelList_def Let_def)
qed

theorem createModelObject_descriptor_witness:
  "valid_date \<lparr>date_year = 2024, date_month = 1, date_day = 29, date_ms = 0\<rparr>
   \<and> (0::rat) \<le> 1 / 2 \<and> (1::rat) / 2 < 1
   \<and> object_size (createModelObject \<lparr>date_year = 2024, date_month = 1, date_day = 29, date_ms = 0\<rparr>
                     (\<lambda>k. 1 / 2) 0 (js ''qwen2.5:7b'')) = 350000000
   \<and> length (object_digest (createModelObject
                \<lparr>date_year = 2024, date_month = 1, date_day = 29, date_ms = 0\<rparr>
                (\<lambda>k. 1 / 2) 0 (js ''qwen2.5:7b''))) = 64
   \<and> object_modified_at (createModelObject
                \<lparr>date_year = 2024, date_month = 1, date_day = 29, date_ms = 0\<rparr>
                (\<lambda>k. 1 / 2) 0 (js ''qwen2.5:7b''))
       = \<lparr>date_year = 2025, date_month = 2, date_day = 1, date_ms = 0\<rparr>
   \<and> object_quantization_level (createModelObject
                \<lparr>date_year = 2024, date_month = 1, date_day = 29, date_ms = 0\<rparr>
                (\<lambda>k. 1 / 2) 0 (js ''qwen2.5:7b'')) = js ''F16''"
proof -
  have v: "valid_date \<lparr>date_year = 2024, date_month = 1, date_day = 29, date_ms = 0\<rparr>"
    by (simp add: valid_date_def days_in_month_def leap_year_def)
  have d: "\<forall>k::nat. (0::rat) \<le> 1 / 2 \<and> (1::rat) / 2 < 1" by simp
  have s: "object_size (createModelObject \<lparr>date_year = 2024, date_month = 1, date_day = 29, date_ms = 0\<rparr>
                     (\<lambda>k. 1 / 2) 0 (js ''qwen2.5:7b'')) = 350000000"
    by (simp add: createModelObject_def Let_def random_int_def)
  have q: "object_quantization_level (createModelObject
                \<lparr>date_year = 2024, date_month = 1, date_day = 29, date_ms = 0\<rparr>
                (\<lambda>k. 1 / 2) 0 (js ''qwen2.5:7b'')) = js ''F16''"
    by (simp add: createModelObject_def Let_def)
  from createModelObject_descriptor [OF d v, of 0 "js ''qwen2.5:7b''"] v s q
  show ?thesis by simp
qed

section \<open>Reassembly of lines over ASCII text\<close>

text \<open>
  Appending text to a buffer whose messages were processed without an exception: the
  loop does on the longer buffer what it did on the shorter one, and then goes on with
  what was left and the new text.
\<close>

lemma indexOf_append_Some:
  "indexOf c xs = Some i \<Longrightarrow> indexOf c (xs @ ys) = Some i"
  by (induction xs arbitrary: i) (auto split: if_splits)

lemma chatCompletions_messages_append:
  "\<not> logs_error (snd (chatCompletions_messages model a)) \<Longrightarrow>
   chatCompletions_messages model (a @ b) =
     apsnd ((@) (snd (chatCompletions_messages model a)))
       (chatCompletions_messages model (fst (chatCompletions_messages model a) @ b))"
proof (induction model a rule: chatCompletions_messages.induct)
  case (1 model buffer)
  show ?case
  proof (cases "indexOf 10 buffer")
    case None
    then have "chatCompletions_messages model buffer = (buffer, [])"
      by (subst chatCompletions_messages.simps) simp
    then show ?thesis by (simp add: apsnd_def map_prod_def split_beta)
  next
    case (Some messageEnd)
    let ?message = "take messageEnd buffer"
    let ?buffer1 = "drop (Suc messageEnd) buffer"
    from Some have less: "messageEnd < length buffer" by (rule indexOf_Some_less)
    from Some have at: "indexOf 10 (buffer @ b) = Some messageEnd" by (rule indexOf_append_Some)
    from less have tk: "take messageEnd (buffer @ b) = ?message"
      and dr: "drop (Suc messageEnd) (buffer @ b) = ?buffer1 @ b" by simp_all
    show ?thesis
    proof (cases "trim ?message = []")
      case True
      have u: "chatCompletions_messages model buffer = chatCompletions_messages model ?buffer1"
        by (subst chatCompletions_messages.simps) (simp add: Some True)
      have v: "chatCompletions_messages model (buffer @ b) =
               chatCompletions_messages model (?buffer1 @ b)"
        by (subst chatCompletions_messages.simps) (simp add: at tk dr True del: take_append drop_append)
      from "1.prems" u have "\<not> logs_error (snd (chatCompletions_messages model ?buffer1))" by simp
      from "1.IH"(1) [OF Some refl refl True this] u v show ?thesis by simp
    next
      case nonblank: False
      show ?thesis
      proof (cases "trim (strip_data_prefix ?message) = js ''[DONE]''")
        case True
        have u: "chatCompletions_messages model buffer =
                 apsnd ((#) (WriteText (js ''data: [DONE]\<newline>\<newline>'')))
                   (chatCompletions_messages model ?buffer1)"
          by (subst chatCompletions_messages.simps) (simp add: Some nonblank True)
        have v: "chatCompletions_messages model (buffer @ b) =
                 apsnd ((#) (WriteText (js ''data: [DONE]\<newline>\<newline>'')))
                   (chatCompletions_messages model (?buffer1 @ b))"
          by (subst chatCompletions_messages.simps) (simp add: at tk dr nonblank True del: take_append drop_append)
        from "1.prems" u have "\<not> logs_error (snd (chatCompletions_messages model ?buffer1))"
          by (simp add: logs_error_def)
        from "1.IH"(2) [OF Some refl refl nonblank True this] u v show ?thesis
          by (simp add: apsnd_def map_prod_def split_beta)
      next
        case data: False
        show ?thesis
        proof (cases "bind (JSON_parse (strip_data_prefix ?message)) (streamResponse model)")
          case (Inl e)
          have "chatCompletions_messages model buffer = (?buffer1, [LogError (Thrown e)])"
            by (subst chatCompletions_messages.simps) (simp add: Some nonblank data Inl)
          with "1.prems" show ?thesis by (simp add: logs_error_def)
        next
          case (Inr frame)
          have u: "chatCompletions_messages model buffer =
                   apsnd ((#) (WriteChunk frame)) (chatCompletions_messages model ?buffer1)"
            by (subst chatCompletions_messages.simps) (simp add: Some nonblank data Inr)
          have v: "chatCompletions_messages model (buffer @ b) =
                   apsnd ((#) (WriteChunk frame)) (chatCompletions_messages model (?buffer1 @ b))"
            by (subst chatCompletions_messages.simps) (simp add: at tk dr nonblank data Inr del: take_append drop_append)
          from "1.prems" u have "\<not> logs_error (snd (chatCompletions_messages model ?buffer1))"
            by (simp add: logs_error_def)
          from "1.IH"(3) [OF Some refl refl nonblank data Inr this] u v show ?thesis
            by (simp add: apsnd_def map_prod_def split_beta)
        qed
      qed
    qed
  qed
qed

lemma chatCompletions_messages_error_append:
  "logs_error (snd (chatCompletions_messages model a)) \<Longrightarrow>
   logs_error (snd (chatCompletions_messages model (a @ b)))"
proof (induction model a rule: chatCompletions_messages.induct)
  case (1 model buffer)
  show ?case
  proof (cases "indexOf 10 buffer")
    case None
    then have "chatCompletions_messages model buffer = (buffer, [])"
      by (subst chatCompletions_messages.simps) simp
    with "1.prems" show ?thesis by (simp add: logs_error_def)
  next
    case (Some messageEnd)
    let ?message = "take messageEnd buffer"
    let ?buffer1 = "drop (Suc messageEnd) buffer"
    from Some have less: "messageEnd < length buffer" by (rule indexOf_Some_less)
    from Some have at: "indexOf 10 (buffer @ b) = Some messageEnd" by (rule indexOf_append_Some)
    from less have tk: "take messageEnd (buffer @ b) = ?message"
      and dr: "drop (Suc messageEnd) (buffer @ b) = ?buffer1 @ b" by simp_all
    show ?thesis
    proof (cases "trim ?message = []")
      case True
      have u: "chatCompletions_messages model buffer = chatCompletions_messages model ?buffer1"
        by (subst chatCompletions_messages.simps) (simp add: Some True)
      have v: "chatCompletions_messages model (buffer @ b) =
               chatCompletions_messages model (?buffer1 @ b)"
        by (subst chatCompletions_messages.simps) (simp add: at tk dr True del: take_append drop_append)
      from "1.prems" u have "logs_error (snd (chatCompletions_messages model ?buffer1))" by simp
      from "1.IH"(1) [OF Some refl refl True this] v show ?thesis by simp
    next
      case nonblank: False
      show ?thesis
      proof (cases "trim (strip_data_prefix ?message) = js ''[DONE]''")
        case True
        have u: "chatCompletions_messages model buffer =
                 apsnd ((#) (WriteText (js ''data: [DONE]\<newline>\<newline>'')))
                   (chatCompletions_messages model ?buffer1)"
          by (subst chatCompletions_messages.simps) (simp add: Some nonblank True)
        have v: "chatCompletions_messages model (buffer @ b) =
                 apsnd ((#) (WriteText (js ''data: [DONE]\<newline>\<newline>'')))
                   (chatCompletions_messages model (?buffer1 @ b))"
          by (subst chatCompletions_messages.simps) (simp add: at tk dr nonblank True del: take_append drop_append)
        from "1.prems" u have "logs_error (snd (chatCompletions_messages model ?buffer1))"
          by (simp add: logs_error_def)
        from "1.IH"(2) [OF Some refl refl nonblank True this] v show ?thesis
          by (simp add: logs_error_def)
      next
        case data: False
        show ?thesis
        proof (cases "bind (JSON_parse (strip_data_prefix ?message)) (streamResponse model)")
          case (Inl e)
          have "chatCompletions_messages model (buffer @ b) = (?buffer1 @ b, [LogError (Thrown e)])"
            by (subst chatCompletions_messages.simps) (simp add: at tk dr nonblank data Inl del: take_append drop_append)
          then show ?thesis by (auto simp: logs_error_def)
        next
          case (Inr frame)
          have u: "chatCompletions_messages model buffer =
                   apsnd ((#) (WriteChunk frame)) (chatCompletions_messages model ?buffer1)"
            by (subst chatCompletions_messages.simps) (simp add: Some nonblank data Inr)
          have v: "chatCompletions_messages model (buffer @ b) =
                   apsnd ((#) (WriteChunk frame)) (chatCompletions_messages model (?buffer1 @ b))"
            by (subst chatCompletions_messages.simps) (simp add: at tk dr nonblank data Inr del: take_append drop_append)
          from "1.prems" u have "logs_error (snd (chatCompletions_messages model ?buffer1))"
            by (simp add: logs_error_def)
          from "1.IH"(3) [OF Some refl refl nonblank data Inr this] v show ?thesis
            by (simp add: logs_error_def)
        qed
      qed
    qed
  qed
qed

lemma chatCompletions_messages_residue:
  "\<not> logs_error (snd (chatCompletions_messages model a)) \<Longrightarrow>
   indexOf 10 (fst (chatCompletions_messages model a)) = None"
proof (induction model a rule: chatCompletions_messages.induct)
  case (1 model buffer)
  show ?case
  proof (cases "indexOf 10 buffer")
    case None
    then have "chatCompletions_messages model buffer = (buffer, [])"
      by (subst chatCompletions_messages.simps) simp
    with None show ?thesis by simp
  next
    case (Some messageEnd)
    let ?message = "take messageEnd buffer"
    let ?buffer1 = "drop (Suc messageEnd) buffer"
    show ?thesis
    proof (cases "trim ?message = []")
      case True
      have u: "chatCompletions_messages model buffer = chatCompletions_messages model ?buffer1"
        by (subst chatCompletions_messages.simps) (simp add: Some True)
      from "1.prems" u have "\<not> logs_error (snd (chatCompletions_messages model ?buffer1))" by simp
      from "1.IH"(1) [OF Some refl refl True this] u show ?thesis by simp
    next
      case nonblank: False
      show ?thesis
      proof (cases "trim (strip_data_prefix ?message) = js ''[DONE]''")
        case True
        have u: "chatCompletions_messages model buffer =
                 apsnd ((#) (WriteText (js ''data: [DONE]\<newline>\<newline>'')))
                   (chatCompletions_messages model ?buffer1)"
          by (subst chatCompletions_messages.simps) (simp add: Some nonblank True)
        from "1.prems" u have "\<not> logs_error (snd (chatCompletions_messages model ?buffer1))"
          by (simp add: logs_error_def)
        from "1.IH"(2) [OF Some refl refl nonblank True this] u show ?thesis by simp
      next
        case data: False
        show ?thesis
        proof (cases "bind (JSON_parse (strip_data_prefix ?message)) (streamResponse model)")
          case (Inl e)
          have "chatCompletions_messages model buffer = (?buffer1, [LogError (Thrown e)])"
            by (subst chatCompletions_messages.simps) (simp add: Some nonblank data Inl)
          with "1.prems" show ?thesis by (simp add: logs_error_def)
        next
          case (Inr frame)
          have u: "chatCompletions_messages model buffer =
                   apsnd ((#) (WriteChunk frame)) (chatCompletions_messages model ?buffer1)"
            by (subst chatCompletions_messages.simps) (simp add: Some nonblank data Inr)
          from "1.prems" u have "\<not> logs_error (snd (chatCompletions_messages model ?buffer1))"
            by (simp add: logs_error_def)
          from "1.IH"(3) [OF Some refl refl nonblank data Inr this] u show ?thesis by simp
        qed
      qed
    qed
  qed
qed

lemma utf8_decode_ascii: "\<forall>b\<in>set bs. b < 128 \<Longrightarrow> utf8_decode bs = bs"
  by (induction bs) (simp_all add: utf8_step_def)

lemma toString_ascii: "ascii chunk \<Longrightarrow> toString chunk = map of_char chunk"
  by (simp add: toString_def ascii_def utf8_decode_ascii)

lemma toString_append_ascii:
  assumes "ascii a" "ascii b"
  shows "toString (a @ b) = toString a @ toString b"
proof -
  from assms have "ascii (a @ b)" by (auto simp: ascii_def)
  with assms show ?thesis by (simp add: toString_ascii)
qed

lemma ascii_concat: "\<forall>c\<in>set chunks. ascii c \<Longrightarrow> ascii (concat chunks)"
  by (auto simp: ascii_def)

lemma chatCompletions_events_flat:
  assumes "indexOf 10 buffer = None"
    and "\<forall>c\<in>set chunks. ascii c"
    and "\<not> logs_error (snd (chatCompletions_messages model (buffer @ toString (concat chunks))))"
  shows "chatCompletions_events model buffer chunks =
           snd (chatCompletions_messages model (buffer @ toString (concat chunks)))
           @ chatCompletions_on_end model"
  using assms
proof (induction chunks arbitrary: buffer)
  case Nil
  then have "chatCompletions_messages model buffer = (buffer, [])"
    by (subst chatCompletions_messages.simps) simp
  then show ?case by (simp add: toString_def)
next
  case (Cons chunk chunks)
  let ?a = "buffer @ toString chunk"
  let ?rest = "toString (concat chunks)"
  let ?r = "fst (chatCompletions_messages model ?a)"
  from Cons.prems(2) have asc: "ascii chunk" "\<forall>c\<in>set chunks. ascii c" by simp_all
  then have whole: "toString (concat (chunk # chunks)) = toString chunk @ ?rest"
    by (simp add: toString_append_ascii ascii_concat)
  with Cons.prems(3)
  have clean: "\<not> logs_error (snd (chatCompletions_messages model (?a @ ?rest)))" by simp
  then have clean_a: "\<not> logs_error (snd (chatCompletions_messages model ?a))"
    using chatCompletions_messages_error_append [of model ?a ?rest] by blast
  from chatCompletions_messages_append [OF clean_a, of ?rest]
  have split: "chatCompletions_messages model (?a @ ?rest) =
                 apsnd ((@) (snd (chatCompletions_messages model ?a)))
                   (chatCompletions_messages model (?r @ ?rest))" .
  with clean have clean_r: "\<not> logs_error (snd (chatCompletions_messages model (?r @ ?rest)))"
    by (auto simp: logs_error_def apsnd_def map_prod_def split_beta)
  from chatCompletions_messages_residue [OF clean_a]
  have idle: "indexOf 10 ?r = None" .
  from Cons.IH [OF idle asc(2) clean_r]
  have "chatCompletions_events model ?r chunks =
          snd (chatCompletions_messages model (?r @ ?rest)) @ chatCompletions_on_end model" .
  with split whole show ?case
    by (simp add: chatCompletions_on_data_def apsnd_def map_prod_def split_beta)
qed

text \<open>
  What the reassembly of lines does achieve on the OpenAI-compatible surface: for
  chunks of ASCII bytes, and a stream none of whose complete lines throws, two
  deliveries of the same bytes have the same effects, however the bytes are cut.
\<close>

lemma chatCompletions_events_split_invariant:
  assumes "\<forall>c\<in>set chunks. ascii c" and "\<forall>c\<in>set chunks'. ascii c"
    and "concat chunks = concat chunks'"
    and "\<not> logs_error (snd (chatCompletions_messages model (toString (concat chunks))))"
  shows "chatCompletions_events model [] chunks = chatCompletions_events model [] chunks'"
proof -
  have idle: "indexOf 10 [] = None" by simp
  from assms(4) have c: "\<not> logs_error (snd (chatCompletions_messages model ([] @ toString (concat chunks))))"
    by simp
  from assms(3,4) have c': "\<not> logs_error (snd (chatCompletions_messages model ([] @ toString (concat chunks'))))"
    by simp
  from chatCompletions_events_flat [OF idle assms(1) c]
    chatCompletions_events_flat [OF idle assms(2) c'] assms(3)
  show ?thesis by simp
qed

section \<open>Deliveries on which the translators lose or change frames\<close>

text \<open>The definitions that evaluate a translator on concrete chunks.\<close>

lemmas translator_eval =
  chatCompletions_on_data_def chatCompletions_messages.simps chat_on_data_def chat_messages.simps
  emitted_def toString_def utf8_step_def cont_def Let_def trim_def is_ws_def strip_data_prefix_def
  JSON_parse_def js_def is_digit_def streamResponse_def chat_streamResponse_def lookup_def
  js_or_def opt_index0_def

text \<open>
  Claim C3 says that every complete line whose content is the sentinel is forwarded
  verbatim on the OpenAI-compatible surface.  A keep-alive comment line followed in
  the same chunk by the sentinel line, the last chunk of the stream: the parse error
  of the comment line leaves the loop, the sentinel line stays in the buffer, nothing
  is written for it, and the stream ends; the only sentinel the client receives is the
  one that the \<^verbatim>\<open>end\<close> callback writes on every stream.  Delivered in a chunk of
  its own, the same sentinel line is forwarded, before that of the \<^verbatim>\<open>end\<close>
  callback.
\<close>

theorem sentinel_after_malformed_line_not_forwarded:
  \<open>chatCompletions_on_data (JStr (js ''m'')) [] '': keepalive\<newline>data: [DONE]\<newline>''
   = (js ''data: [DONE]\<newline>'', [LogError (Thrown SyntaxError)])
   \<and> chatCompletions_events (JStr (js ''m'')) [] ['': keepalive\<newline>data: [DONE]\<newline>'']
   = [LogError (Thrown SyntaxError)] @ chatCompletions_on_end (JStr (js ''m''))
   \<and> chatCompletions_events (JStr (js ''m'')) [] ['': keepalive\<newline>'', ''data: [DONE]\<newline>'']
   = [LogError (Thrown SyntaxError), WriteText (js ''data: [DONE]\<newline>\<newline>'')]
     @ chatCompletions_on_end (JStr (js ''m''))\<close>
  by (simp add: translator_eval)

text \<open>
  Claim C4 says that a line that fails to parse is skipped on its own and that every
  well-formed complete line still produces its frame.  The handlers catch the error
  around the whole loop, not around one line.  On the OpenAI-compatible surface, a
  keep-alive comment line followed in the same chunk by a well-formed delta line, the
  last chunk of the stream: the error is logged, the delta line stays in the buffer and
  the stream ends without its frame.  Delivered in a chunk of its own, the same delta
  line does produce its frame.  On the local-runner surface, two well-formed delta
  lines: \<^verbatim>\<open>res.header\<close> throws once the first frame has been written, so the second
  line is logged as an error and produces no frame.
\<close>

theorem malformed_line_strands_later_lines:
  \<open>chatCompletions_events (JStr (js ''m'')) []
     ['': OPENROUTER PROCESSING\<newline>\<newline>data: {"choices":[{"delta":{"content":"hi"}}]}\<newline>\<newline>'']
   = [LogError (Thrown SyntaxError)] @ chatCompletions_on_end (JStr (js ''m''))
   \<and> chatCompletions_events (JStr (js ''m'')) []
     ['': OPENROUTER PROCESSING\<newline>\<newline>'', ''data: {"choices":[{"delta":{"content":"hi"}}]}\<newline>\<newline>'']
   = [LogError (Thrown SyntaxError),
      WriteChunk \<lparr>chunk_id = None, chunk_model = JStr (js ''m''), chunk_role = JNull,
                   chunk_content = JStr (js ''hi''), chunk_finish_reason = JNull,
                   chunk_matched_stop = JNull\<rparr>]
     @ chatCompletions_on_end (JStr (js ''m''))
   \<and> chat_events (JStr (js ''m'')) random False []
     [''data: {"choices":[{"delta":{"content":"a"}}]}\<newline>data: {"choices":[{"delta":{"content":"b"}}]}\<newline>'']
   = [SetHeader (js ''Content-Type'') (js ''application/json''),
      WriteLine \<lparr>line_model = JStr (js ''m''), line_content = JStr (js ''a''), line_done = False,
                  line_done_reason = None, line_timing = None\<rparr>,
      LogError HeadersSent]
     @ chat_on_end (JStr (js ''m'')) random\<close>
  by (simp add: translator_eval)

text \<open>
  Claim C2 says that the frames do not depend on how the bytes are cut into chunks and
  that a line whose terminator arrives in a later chunk yields exactly one frame.  Each
  chunk is decoded on its own.  On the OpenAI-compatible surface, one delta line whose
  content is the two-byte character U+00E9: delivered whole, the frame's content is that
  character; cut between its two bytes, the frame's content is two U+FFFD.  On the
  local-runner surface, a second delta line whose terminator arrives in a chunk of its
  own yields no frame at all.
\<close>

theorem translator_split_dependence:
  \<open>chatCompletions_events (JStr (js ''m'')) []
     [''data: {"choices":[{"delta":{"content":"'' @ [CHR 0xC3, CHR 0xA9] @ ''"}}]}\<newline>'']
   = [WriteChunk \<lparr>chunk_id = None, chunk_model = JStr (js ''m''), chunk_role = JNull,
                   chunk_content = JStr [233], chunk_finish_reason = JNull,
                   chunk_matched_stop = JNull\<rparr>]
     @ chatCompletions_on_end (JStr (js ''m''))
   \<and> chatCompletions_events (JStr (js ''m'')) []
     [''data: {"choices":[{"delta":{"content":"'' @ [CHR 0xC3],
      [CHR 0xA9] @ ''"}}]}\<newline>'']
   = [WriteChunk \<lparr>chunk_id = None, chunk_model = JStr (js ''m''), chunk_role = JNull,
                   chunk_content = JStr [65533, 65533], chunk_finish_reason = JNull,
                   chunk_matched_stop = JNull\<rparr>]
     @ chatCompletions_on_end (JStr (js ''m''))
   \<and> chat_events (JStr (js ''m'')) random False []
     [''data: {"choices":[{"delta":{"content":"a"}}]}\<newline>'',
      ''data: {"choices":[{"delta":{"content":"b"}}]}'', ''\<newline>'']
   = [SetHeader (js ''Content-Type'') (js ''application/json''),
      WriteLine \<lparr>line_model = JStr (js ''m''), line_content = JStr (js ''a''), line_done = False,
                  line_done_reason = None, line_timing = None\<rparr>,
      LogError HeadersSent]
     @ chat_on_end (JStr (js ''m'')) random\<close>
  by (simp add: translator_eval)

end
